theory Spec2Isabelle
  imports Main "HOL-Library.Word"
begin

section \<open>JavaScript strings\<close>

text \<open>
  A JavaScript string is a sequence of UTF-16 code units, and \<open>length\<close> counts code
  units. String literals of the source are written with \<open>lit\<close>, which reads each
  character of an Isabelle string (a byte, 0 to 255) as the code unit of the same number;
  the source's literals stay within that range.
\<close>

type_synonym cu = "16 word"
type_synonym jsstr = "cu list"

definition cu_of_char :: "char \<Rightarrow> cu" where
  "cu_of_char c = of_nat (of_char c)"

definition lit :: "string \<Rightarrow> jsstr" where
  "lit s = map cu_of_char s"

text \<open>
  \<open>String.prototype.trim\<close> removes white space and line terminators from both ends:
  TAB, LF, VT, FF, CR, SP, NBSP, U+1680, U+2000 to U+200A, LS, PS, U+202F, U+205F,
  U+3000 and U+FEFF.
\<close>

definition isWhiteSpace :: "cu \<Rightarrow> bool" where
  "isWhiteSpace c \<longleftrightarrow>
     c = 0x0009 \<or> c = 0x000A \<or> c = 0x000B \<or> c = 0x000C \<or> c = 0x000D \<or> c = 0x0020 \<or>
     c = 0x00A0 \<or> c = 0x1680 \<or> (0x2000 \<le> c \<and> c \<le> 0x200A) \<or> c = 0x2028 \<or>
     c = 0x2029 \<or> c = 0x202F \<or> c = 0x205F \<or> c = 0x3000 \<or> c = 0xFEFF"

definition trim :: "jsstr \<Rightarrow> jsstr" where
  "trim s = rev (dropWhile isWhiteSpace (rev (dropWhile isWhiteSpace s)))"

text \<open>\<open>s.startsWith(p)\<close> and \<open>s.includes(p)\<close>.\<close>

fun startsWith :: "jsstr \<Rightarrow> jsstr \<Rightarrow> bool" where
  "startsWith s [] = True"
| "startsWith [] (p # ps) = False"
| "startsWith (c # cs) (p # ps) = (c = p \<and> startsWith cs ps)"

fun includesStr :: "jsstr \<Rightarrow> jsstr \<Rightarrow> bool" where
  "includesStr [] p = (p = [])"
| "includesStr (c # cs) p = (startsWith (c # cs) p \<or> includesStr cs p)"

text \<open>\<open>xs.join(sep)\<close> on an array of strings.\<close>

fun join :: "jsstr \<Rightarrow> jsstr list \<Rightarrow> jsstr" where
  "join sep [] = []"
| "join sep [x] = x"
| "join sep (x # y # ys) = x @ sep @ join sep (y # ys)"

text \<open>The decimal digits of a natural number, as a template literal prints an integer.\<close>

fun decimal :: "nat \<Rightarrow> jsstr" where
  "decimal n =
     (if n < 10 then [of_nat (48 + n)]
      else decimal (n div 10) @ [of_nat (48 + n mod 10)])"

declare decimal.simps [simp del]

text \<open>
  The string iterator yields code points: a high surrogate followed by a low surrogate
  is one element, every other code unit is an element by itself.
\<close>

fun codePoints :: "jsstr \<Rightarrow> jsstr list" where
  "codePoints [] = []"
| "codePoints [c] = [[c]]"
| "codePoints (c # d # cs) =
     (if 0xD800 \<le> c \<and> c \<le> 0xDBFF \<and> 0xDC00 \<le> d \<and> d \<le> 0xDFFF
      then [c, d] # codePoints cs
      else [c] # codePoints (d # cs))"

section \<open>JavaScript values that come out of JSON\<close>

text \<open>
  Request bodies and provider responses are whatever \<open>JSON.parse\<close> produced, typed
  \<open>any\<close> in the source. A number is identified by the string that
  \<open>Number.prototype.toString\<close> prints for it: the handlers only convert numbers to
  strings, test them for truthiness (a JSON number is falsy exactly when it prints as
  \<open>0\<close>) and serialise them again, and all three are determined by that string.
  An object is the list of its own properties in insertion order; \<open>map_of\<close> looks a
  key up.
\<close>

datatype jsval =
    JUndefined
  | JNull
  | JBool bool
  | JNum jsstr
  | JStr jsstr
  | JArr "jsval list"
  | JObj "(jsstr \<times> jsval) list"

datatype js_error = TypeError | RangeError | URIError | FetchFailed

text \<open>
  \<open>v?.k\<close> for a property name \<open>k\<close> that no built-in prototype defines (none of the
  names the handlers read is one): the own property of an object, \<open>undefined\<close>
  everywhere else, also on \<open>null\<close> and \<open>undefined\<close>.
\<close>

fun getProp :: "jsval \<Rightarrow> jsstr \<Rightarrow> jsval" where
  "getProp (JObj kvs) k = (case map_of kvs k of Some v \<Rightarrow> v | None \<Rightarrow> JUndefined)"
| "getProp v k = JUndefined"

text \<open>\<open>v?.[0]\<close>: arrays and strings are indexed, an object is asked for its key \<open>0\<close>.\<close>

fun getFirst :: "jsval \<Rightarrow> jsval" where
  "getFirst (JArr xs) = (case xs of [] \<Rightarrow> JUndefined | x # _ \<Rightarrow> x)"
| "getFirst (JStr s) = (case s of [] \<Rightarrow> JUndefined | c # _ \<Rightarrow> JStr [c])"
| "getFirst (JObj kvs) = (case map_of kvs (lit ''0'') of Some v \<Rightarrow> v | None \<Rightarrow> JUndefined)"
| "getFirst v = JUndefined"

text \<open>\<open>a ?? b\<close> and truthiness.\<close>

definition nullish :: "jsval \<Rightarrow> bool" where
  "nullish v \<longleftrightarrow> v = JUndefined \<or> v = JNull"

definition coalesce :: "jsval \<Rightarrow> jsval \<Rightarrow> jsval" where
  "coalesce a b = (if nullish a then b else a)"

fun truthy :: "jsval \<Rightarrow> bool" where
  "truthy JUndefined = False"
| "truthy JNull = False"
| "truthy (JBool b) = b"
| "truthy (JNum n) = (n \<noteq> lit ''0'')"
| "truthy (JStr s) = (s \<noteq> [])"
| "truthy (JArr xs) = True"
| "truthy (JObj kvs) = True"

text \<open>
  The abstract operation ToString, which \<open>String(v)\<close> applies. An array prints its
  elements joined by commas, \<open>null\<close> and \<open>undefined\<close> elements as the empty string.
  An object prints as \<open>[object Object]\<close> through \<open>Object.prototype.toString\<close>, unless
  it has a property \<open>toString\<close> of its own: in parsed JSON that property is never a
  function, the inherited \<open>valueOf\<close> returns the object itself, and the conversion
  raises a TypeError.
\<close>

fun ToString :: "jsval \<Rightarrow> js_error + jsstr"
  and joinElems :: "jsval list \<Rightarrow> js_error + jsstr list" where
  "ToString JUndefined = Inr (lit ''undefined'')"
| "ToString JNull = Inr (lit ''null'')"
| "ToString (JBool b) = Inr (if b then lit ''true'' else lit ''false'')"
| "ToString (JNum n) = Inr n"
| "ToString (JStr s) = Inr s"
| "ToString (JArr xs) =
     (case joinElems xs of Inl e \<Rightarrow> Inl e | Inr ss \<Rightarrow> Inr (join (lit '','') ss))"
| "ToString (JObj kvs) =
     (if map_of kvs (lit ''toString'') = None then Inr (lit ''[object Object]'')
      else Inl TypeError)"
| "joinElems [] = Inr []"
| "joinElems (x # xs) =
     (case (if x = JUndefined \<or> x = JNull then Inr [] else ToString x) of
        Inl e \<Rightarrow> Inl e
      | Inr s \<Rightarrow> (case joinElems xs of Inl e \<Rightarrow> Inl e | Inr ss \<Rightarrow> Inr (s # ss)))"

text \<open>
  The method call \<open>v.toString()\<close>. On \<open>null\<close> and \<open>undefined\<close> it raises; on every other
  value from JSON it gives what ToString gives (an object with an own \<open>toString\<close>
  property raises here too, because that property is not callable).
\<close>

definition toString_call :: "jsval \<Rightarrow> js_error + jsstr" where
  "toString_call v = (if nullish v then Inl TypeError else ToString v)"

text \<open>
  What \<open>for (const x of v)\<close> visits: the elements of an array, the code points of a
  string; any other value is not iterable and the loop raises a TypeError.
\<close>

fun iterate :: "jsval \<Rightarrow> js_error + jsval list" where
  "iterate (JArr xs) = Inr xs"
| "iterate (JStr s) = Inr (map JStr (codePoints s))"
| "iterate v = Inl TypeError"

section \<open>The platform\<close>

text \<open>
  What the handlers read from their surroundings. \<open>process.env\<close> holds a string or
  nothing under each name. Of a request the handlers use the header \<open>x-app-token\<close>
  (\<open>headers.get\<close> gives \<open>null\<close> when it is absent, and otherwise the value without the
  white space around it) and the body, through \<open>req.json()\<close> and \<open>req.text()\<close>;
  \<open>None\<close> stands for a rejected promise.
\<close>

record env =
  APP_TOKEN :: "jsstr option"
  GEMINI_API_KEY :: "jsstr option"
  GEMINI_MODEL :: "jsstr option"
  OPENAI_API_KEY :: "jsstr option"
  OPENAI_MODEL :: "jsstr option"

record request =
  x_app_token :: "jsstr option"
  req_json :: "jsval option"
  req_text :: "jsstr option"

text \<open>
  An outbound call is the arguments given to \<open>fetch\<close>; \<open>payload\<close> is the value handed
  to \<open>JSON.stringify\<close> for the body. Of the provider's answer the handlers read
  \<open>status\<close>, \<open>ok\<close> and \<open>json()\<close>.
\<close>

record outbound =
  url :: jsstr
  http_method :: jsstr
  out_headers :: "(jsstr \<times> jsstr) list"
  payload :: jsval

record upstream =
  up_status :: nat
  up_json :: "jsval option"

definition ok :: "upstream \<Rightarrow> bool" where
  "ok r \<longleftrightarrow> 200 \<le> up_status r \<and> up_status r \<le> 299"

text \<open>
  The library functions the handlers call. \<open>toLowerCase\<close> follows the Unicode case
  tables and is left to the runtime, as are \<open>JSON.parse\<close> and
  \<open>encodeURIComponent\<close> (\<open>None\<close>: the call raises) and \<open>fetch\<close> (\<open>None\<close>: the promise
  is rejected). \<open>randomUUID\<close> is \<open>None\<close> where \<open>globalThis.crypto?.randomUUID\<close> is
  missing. \<open>errorText e\<close> is what \<open>e?.message ?? String(e)\<close> gives for a caught
  exception; the engine's wording is not modelled.
\<close>

record runtime =
  toLowerCase :: "jsstr \<Rightarrow> jsstr"
  JSON_parse :: "jsstr \<Rightarrow> jsval option"
  encodeURIComponent :: "jsstr \<Rightarrow> jsstr option"
  fetch :: "outbound \<Rightarrow> upstream option"
  randomUUID :: "jsstr option"
  Date_now :: nat
  errorText :: "js_error \<Rightarrow> jsstr"

text \<open>
  A response holds what the handler hands to the \<open>NextResponse\<close> constructor: the
  status, the headers and the value serialised into the body.
\<close>

record response =
  status :: nat
  headers :: "(jsstr \<times> jsstr) list"
  body :: jsval

text \<open>
  \<open>new NextResponse(JSON.stringify(data), {status, headers})\<close>. \<open>NextResponse\<close> extends
  the \<open>Response\<close> of the Fetch standard, whose constructor raises a RangeError for a
  status outside 200 to 599 and a TypeError when a body comes with a null-body status
  (of those, 204, 205 and 304 lie in the range). \<open>JSON.stringify\<close> gives a string, hence
  a body, for every value but \<open>undefined\<close>.
\<close>

definition construct :: "(jsstr \<times> jsstr) list \<Rightarrow> jsval \<Rightarrow> nat \<Rightarrow> js_error + response" where
  "construct hs data st =
     (if st < 200 \<or> 599 < st then Inl RangeError
      else if data \<noteq> JUndefined \<and> (st = 204 \<or> st = 205 \<or> st = 304) then Inl TypeError
      else Inr \<lparr>status = st, headers = hs, body = data\<rparr>)"

type_synonym trace = "(outbound \<times> upstream option) list"

text \<open>\<open>x || d\<close> for an environment variable or header \<open>x\<close> and a string \<open>d\<close>.\<close>

definition orElse :: "jsstr option \<Rightarrow> jsstr \<Rightarrow> jsstr" where
  "orElse x d = (case x of None \<Rightarrow> d | Some s \<Rightarrow> if s = [] then d else s)"

definition nl :: jsstr where
  "nl = [0x000A]"

section \<open>Variant A: the Gemini handler (app/api/tutor/route.ts)\<close>

definition headers_A :: "(jsstr \<times> jsstr) list" where
  "headers_A =
     [(lit ''content-type'', lit ''application/json; charset=utf-8''),
      (lit ''access-control-allow-origin'', lit ''*''),
      (lit ''access-control-allow-headers'', lit ''content-type, x-app-token''),
      (lit ''access-control-allow-methods'', lit ''POST, OPTIONS''),
      (lit ''cache-control'', lit ''no-store'')]"

definition json_A :: "jsval \<Rightarrow> nat \<Rightarrow> js_error + response" where
  "json_A data st = construct headers_A data st"

definition normalizeLang :: "runtime \<Rightarrow> jsstr \<Rightarrow> jsstr" where
  "normalizeLang rt input =
     (let v = trim (toLowerCase rt (if input = [] then [] else input))
      in if v = lit ''it'' \<or> includesStr v (lit ''ital'') then lit ''it'' else lit ''es'')"

definition target :: "jsstr \<Rightarrow> jsstr" where
  "target lang =
     (if lang = lit ''it'' then lit ''Italiano'' else lit ''Espanhol (rioplatense neutro)'')"

definition template_A :: "jsstr \<Rightarrow> jsstr" where
  "template_A tgt =
     nl @ lit (''Voc'' @ [CHR 0xEA] @ '' '' @ [CHR 0xE9] @ '' um tutor de idiomas.'') @
     nl @ lit ''Idioma alvo: '' @ tgt @ lit ''.'' @
     nl @ lit (''Idioma da interface/explica'' @ [CHR 0xE7, CHR 0xF5] @ ''es: Portugu'' @
               [CHR 0xEA] @ ''s (Brasil).'') @
     nl @
     nl @ lit ''Regras:'' @
     nl @ lit ''- Responda curto e natural no idioma alvo.'' @
     nl @ lit (''- Depois inclua uma se'' @ [CHR 0xE7, CHR 0xE3] @ ''o '' @ [CHR 0x22] @
               ''Corre'' @ [CHR 0xE7, CHR 0xF5] @ ''es'' @ [CHR 0x22] @
               '' corrigindo a frase do usu'' @ [CHR 0xE1] @ ''rio (se necess'' @
               [CHR 0xE1] @ ''rio).'') @
     nl @ lit (''- Depois inclua uma se'' @ [CHR 0xE7, CHR 0xE3] @ ''o '' @ [CHR 0x22] @
               ''Dica'' @ [CHR 0x22] @ '' com 1 dica objetiva.'') @
     nl @ lit (''- Se o usu'' @ [CHR 0xE1] @ ''rio escrever em PT-BR, pe'' @ [CHR 0xE7] @
               ''a para ele tentar no idioma alvo.'') @
     nl"

definition buildInstructions_A :: "jsstr \<Rightarrow> jsstr" where
  "buildInstructions_A lang = trim (template_A (target lang))"

text \<open>
  The loop of \<open>buildContents\<close> over the history array. An entry whose text is empty
  after trimming is skipped before its role is read. In \<open>buildContents\<close> and in
  \<open>extractTextFromGemini\<close> the test \<open>Array.isArray\<close> is the case distinction on
  \<open>JArr\<close>.
\<close>

fun historyEntries :: "jsval list \<Rightarrow> js_error + jsval list" where
  "historyEntries [] = Inr []"
| "historyEntries (m # ms) =
     (case toString_call (coalesce (getProp m (lit ''text'')) (JStr [])) of
        Inl e \<Rightarrow> Inl e
      | Inr ts \<Rightarrow>
          if trim ts = [] then historyEntries ms
          else
            (case toString_call (coalesce (getProp m (lit ''role'')) (JStr (lit ''user''))) of
               Inl e \<Rightarrow> Inl e
             | Inr roleRaw \<Rightarrow>
                 (case historyEntries ms of
                    Inl e \<Rightarrow> Inl e
                  | Inr rest \<Rightarrow>
                      Inr (JObj
                            [(lit ''role'',
                              JStr (if roleRaw = lit ''assistant'' \<or> roleRaw = lit ''model''
                                    then lit ''model'' else lit ''user'')),
                             (lit ''parts'', JArr [JObj [(lit ''text'', JStr (trim ts))]])]
                           # rest))))"

definition buildContents :: "jsval \<Rightarrow> jsstr \<Rightarrow> js_error + jsval list" where
  "buildContents history userText =
     (case (case history of JArr ms \<Rightarrow> historyEntries ms | _ \<Rightarrow> Inr []) of
        Inl e \<Rightarrow> Inl e
      | Inr contents \<Rightarrow>
          Inr (contents @
               [JObj [(lit ''role'', JStr (lit ''user'')),
                      (lit ''parts'', JArr [JObj [(lit ''text'', JStr userText)]])]]))"

text \<open>
  \<open>extractTextFromGemini\<close>: a part contributes when its \<open>text\<close> is truthy and a
  string, that is a non-empty string.
\<close>

fun partText :: "jsval \<Rightarrow> jsstr list" where
  "partText p = (case getProp p (lit ''text'') of
                   JStr s \<Rightarrow> if s \<noteq> [] then [s] else []
                 | _ \<Rightarrow> [])"

definition extractTextFromGemini :: "jsval \<Rightarrow> jsstr" where
  "extractTextFromGemini data =
     (let cand = getFirst (getProp data (lit ''candidates''));
          parts = getProp (getProp cand (lit ''content'')) (lit ''parts'')
      in case parts of
           JArr ps \<Rightarrow> trim (join nl (concat (map partText ps)))
         | _ \<Rightarrow> [])"

definition safeParseJson :: "runtime \<Rightarrow> request \<Rightarrow> jsval" where
  "safeParseJson rt req =
     (case req_json req of
        Some v \<Rightarrow> v
      | None \<Rightarrow>
          (case req_text req of
             None \<Rightarrow> JNull
           | Some t \<Rightarrow>
               if t = [] then JNull
               else (case JSON_parse rt t of None \<Rightarrow> JNull | Some v \<Rightarrow> v)))"

definition OPTIONS_A :: "js_error + response" where
  "OPTIONS_A = json_A (JObj [(lit ''ok'', JBool True)]) 200"

text \<open>
  \<open>POST\<close>, in the order of the source. Every \<open>return json(...)\<close> of the \<open>try\<close> block
  is the result of \<open>json\<close>, a response or the exception of the constructor, which then
  reaches the \<open>catch\<close>. Lines 106 to 110: the optional shared secret; \<open>Some\<close> is the
  early return.
\<close>

definition auth_A :: "env \<Rightarrow> request \<Rightarrow> (js_error + response) option" where
  "auth_A ev req =
     (let appToken = trim (orElse (APP_TOKEN ev) [])
      in if appToken \<noteq> [] then
           (let sent = trim (orElse (x_app_token req) [])
            in if sent \<noteq> appToken
               then Some (json_A (JObj [(lit ''error'', JStr (lit ''Unauthorized''))]) 401)
               else None)
         else None)"

text \<open>
  Lines 112 to 121: the body, \<open>lang\<close>, \<open>text\<close>, \<open>history\<close> and the two checks on the
  text. The result is an exception, an early return, or the validated triple.
\<close>

definition validate_A ::
  "runtime \<Rightarrow> request \<Rightarrow> js_error + (response + (jsstr \<times> jsstr \<times> jsval))" where
  "validate_A rt req =
     (let body = safeParseJson rt req
      in case toString_call (coalesce (getProp body (lit ''lang'')) (JStr (lit ''es''))) of
           Inl e \<Rightarrow> Inl e
         | Inr ls \<Rightarrow>
             (let lang = normalizeLang rt ls
              in case toString_call (coalesce (getProp body (lit ''text'')) (JStr [])) of
                   Inl e \<Rightarrow> Inl e
                 | Inr ts \<Rightarrow>
                     (let text = trim ts;
                          history = getProp body (lit ''history'')
                      in if text = [] then
                           map_sum id Inl (json_A (JObj [(lit ''error'', JStr (lit ''Missing text''))]) 400)
                         else if length text > 1500 then
                           map_sum id Inl (json_A (JObj [(lit ''error'', JStr (lit ''Text too long''))]) 400)
                         else Inr (Inr (lang, text, history)))))"

text \<open>
  Lines 168 to 170: the provider's \<open>responseId\<close> when it is truthy and prints as a
  non-empty string, otherwise a fresh one.
\<close>

definition response_id_A :: "runtime \<Rightarrow> jsval \<Rightarrow> js_error + jsstr" where
  "response_id_A rt data =
     (let fresh = (case randomUUID rt of
                     Some u \<Rightarrow> u
                   | None \<Rightarrow> lit ''r_'' @ decimal (Date_now rt))
      in if truthy (getProp data (lit ''responseId'')) then
           (case ToString (getProp data (lit ''responseId'')) of
              Inl e \<Rightarrow> Inl e
            | Inr s \<Rightarrow> if s \<noteq> [] then Inr s else Inr fresh)
         else Inr fresh)"

text \<open>Lines 152 to 184: what the handler makes of the provider's answer.\<close>

definition reply_A :: "runtime \<Rightarrow> upstream \<Rightarrow> js_error + response" where
  "reply_A rt r =
     (let data = (case up_json r of None \<Rightarrow> JObj [] | Some d \<Rightarrow> d)
      in if \<not> ok r then
           json_A (JObj [(lit ''error'', JStr (lit ''Gemini error'')),
                         (lit ''status'', JNum (decimal (up_status r))),
                         (lit ''details'', data)])
                  (up_status r)
         else
           (let tutorText = extractTextFromGemini data
            in case response_id_A rt data of
                 Inl e \<Rightarrow> Inl e
               | Inr response_id \<Rightarrow>
                   if tutorText = [] then
                     json_A (JObj [(lit ''error'', JStr (lit ''Empty response'')),
                                   (lit ''response_id'', JStr response_id),
                                   (lit ''details'', data)])
                            502
                   else
                     json_A (JObj [(lit ''text'', JStr tutorText),
                                   (lit ''response_id'', JStr response_id)])
                            200))"

text \<open>
  Lines 123 to 150: the credential, the model, the URL, the payload and the call. The
  second component lists the calls made, each with what \<open>fetch\<close> gave back.
\<close>

definition generate_A ::
  "runtime \<Rightarrow> env \<Rightarrow> jsstr \<Rightarrow> jsstr \<Rightarrow> jsval \<Rightarrow> (js_error + response) \<times> trace" where
  "generate_A rt ev lang text history =
     (let apiKey = trim (orElse (GEMINI_API_KEY ev) [])
      in if apiKey = [] then
           (json_A (JObj [(lit ''error'', JStr (lit ''Server missing GEMINI_API_KEY''))]) 500,
            [])
         else
           (let model = trim (orElse (GEMINI_MODEL ev) (lit ''gemini-2.0-flash''))
            in case encodeURIComponent rt model of
                 None \<Rightarrow> (Inl URIError, [])
               | Some enc \<Rightarrow>
                   (case buildContents history text of
                      Inl e \<Rightarrow> (Inl e, [])
                    | Inr contents \<Rightarrow>
                        (let call =
                           \<lparr>url = lit ''https://generativelanguage.googleapis.com/v1beta/models/''
                                   @ enc @ lit '':generateContent'',
                            http_method = lit ''POST'',
                            out_headers =
                              [(lit ''content-type'', lit ''application/json; charset=utf-8''),
                               (lit ''x-goog-api-key'', apiKey)],
                            payload =
                              JObj [(lit ''system_instruction'',
                                     JObj [(lit ''parts'',
                                            JArr [JObj [(lit ''text'',
                                                         JStr (buildInstructions_A lang))]])]),
                                    (lit ''contents'', JArr contents),
                                    (lit ''generationConfig'',
                                     JObj [(lit ''temperature'', JNum (lit ''0.6'')),
                                           (lit ''maxOutputTokens'', JNum (lit ''280''))])]\<rparr>
                         in case fetch rt call of
                              None \<Rightarrow> (Inl FetchFailed, [(call, None)])
                            | Some r \<Rightarrow> (reply_A rt r, [(call, Some r)])))))"

text \<open>
  The body of the \<open>try\<close> block, and \<open>POST\<close> with its \<open>catch\<close>. The \<open>json\<close> of the
  \<open>catch\<close> is outside the \<open>try\<close>: were it to raise, \<open>POST\<close> itself would.
\<close>

definition validated_A :: "runtime \<Rightarrow> env \<Rightarrow> request \<Rightarrow> (js_error + response) \<times> trace" where
  "validated_A rt ev req =
     (case validate_A rt req of
        Inl e \<Rightarrow> (Inl e, [])
      | Inr (Inl r) \<Rightarrow> (Inr r, [])
      | Inr (Inr (lang, text, history)) \<Rightarrow> generate_A rt ev lang text history)"

definition try_A :: "runtime \<Rightarrow> env \<Rightarrow> request \<Rightarrow> (js_error + response) \<times> trace" where
  "try_A rt ev req =
     (case auth_A ev req of
        Some answer \<Rightarrow> (answer, [])
      | None \<Rightarrow> validated_A rt ev req)"

definition catch_A ::
  "runtime \<Rightarrow> (js_error + response) \<times> trace \<Rightarrow> (js_error + response) \<times> trace" where
  "catch_A rt res =
     (case fst res of
        Inr r \<Rightarrow> (Inr r, snd res)
      | Inl e \<Rightarrow>
          (json_A (JObj [(lit ''error'', JStr (lit ''Server error'')),
                         (lit ''details'', JStr (errorText rt e))])
                  500,
           snd res))"

definition POST_A :: "runtime \<Rightarrow> env \<Rightarrow> request \<Rightarrow> (js_error + response) \<times> trace" where
  "POST_A rt ev req = catch_A rt (try_A rt ev req)"

section \<open>Variant B: the OpenAI handler (the second source file)\<close>

definition headers_B :: "(jsstr \<times> jsstr) list" where
  "headers_B =
     [(lit ''content-type'', lit ''application/json; charset=utf-8''),
      (lit ''access-control-allow-origin'', lit ''*''),
      (lit ''access-control-allow-headers'', lit ''content-type, x-app-token''),
      (lit ''access-control-allow-methods'', lit ''POST, OPTIONS'')]"

definition json_B :: "jsval \<Rightarrow> nat \<Rightarrow> js_error + response" where
  "json_B data st = construct headers_B data st"

definition template_B :: "jsstr \<Rightarrow> jsstr" where
  "template_B tgt =
     nl @ lit (''Voc'' @ [CHR 0xEA] @ '' '' @ [CHR 0xE9] @ '' um tutor de idiomas.'') @
     nl @ lit ''Idioma alvo: '' @ tgt @ lit ''.'' @
     nl @ lit (''Idioma das explica'' @ [CHR 0xE7, CHR 0xF5] @ ''es: Portugu'' @
               [CHR 0xEA] @ ''s (Brasil).'') @
     nl @ lit ''Regras:'' @
     nl @ lit ''- Responda curto e natural no idioma alvo.'' @
     nl @ lit (''- Depois inclua '' @ [CHR 0x22] @ ''Corre'' @ [CHR 0xE7, CHR 0xF5] @ ''es'' @
               [CHR 0x22] @ '' corrigindo a frase do usu'' @ [CHR 0xE1] @
               ''rio (se necess'' @ [CHR 0xE1] @ ''rio).'') @
     nl @ lit (''- Depois inclua '' @ [CHR 0x22] @ ''Dica'' @ [CHR 0x22] @
               '' com 1 dica objetiva.'') @
     nl @ lit (''- Se o usu'' @ [CHR 0xE1] @ ''rio escrever em PT-BR, pe'' @ [CHR 0xE7] @
               ''a para ele tentar no idioma alvo.'') @
     nl"

definition buildInstructions_B :: "jsstr \<Rightarrow> jsstr" where
  "buildInstructions_B lang = trim (template_B (target lang))"

text \<open>
  \<open>extractOutputText\<close>. The inner loop keeps the \<open>text\<close> of every entry of type
  \<open>output_text\<close> whose text is a string; the outer loop visits the items of type
  \<open>message\<close>. Either loop raises when what it is given is not iterable.
\<close>

fun contentText :: "jsval \<Rightarrow> jsstr list" where
  "contentText c =
     (if getProp c (lit ''type'') = JStr (lit ''output_text'') then
        (case getProp c (lit ''text'') of JStr s \<Rightarrow> [s] | _ \<Rightarrow> [])
      else [])"

fun outputTexts :: "jsval list \<Rightarrow> js_error + jsstr list" where
  "outputTexts [] = Inr []"
| "outputTexts (item # items) =
     (if getProp item (lit ''type'') \<noteq> JStr (lit ''message'') then outputTexts items
      else
        (case iterate (coalesce (getProp item (lit ''content'')) (JArr [])) of
           Inl e \<Rightarrow> Inl e
         | Inr content \<Rightarrow>
             (case outputTexts items of
                Inl e \<Rightarrow> Inl e
              | Inr rest \<Rightarrow> Inr (concat (map contentText content) @ rest))))"

definition extractOutputText :: "jsval \<Rightarrow> js_error + jsstr" where
  "extractOutputText openaiJson =
     (case iterate (coalesce (getProp openaiJson (lit ''output'')) (JArr [])) of
        Inl e \<Rightarrow> Inl e
      | Inr out \<Rightarrow>
          (case outputTexts out of
             Inl e \<Rightarrow> Inl e
           | Inr parts \<Rightarrow> Inr (trim (join nl parts))))"

definition OPTIONS_B :: "js_error + response" where
  "OPTIONS_B = json_B (JObj [(lit ''ok'', JBool True)]) 200"

text \<open>Lines 54 to 58: the optional shared secret, compared as it is.\<close>

definition auth_B :: "env \<Rightarrow> request \<Rightarrow> (js_error + response) option" where
  "auth_B ev req =
     (let appToken = orElse (APP_TOKEN ev) []
      in if appToken \<noteq> [] then
           (let sent = orElse (x_app_token req) []
            in if sent \<noteq> appToken
               then Some (json_B (JObj [(lit ''error'', JStr (lit ''Unauthorized''))]) 401)
               else None)
         else None)"

text \<open>
  Lines 60 to 67: the body (\<open>null\<close> when it does not parse), \<open>lang\<close> as sent, \<open>text\<close>,
  \<open>previous_response_id\<close> and the two checks on the text.
\<close>

definition validate_B ::
  "request \<Rightarrow> js_error + (response + (jsstr \<times> jsstr \<times> jsstr option))" where
  "validate_B req =
     (let body = (case req_json req of None \<Rightarrow> JNull | Some v \<Rightarrow> v)
      in case toString_call (coalesce (getProp body (lit ''lang'')) (JStr (lit ''es''))) of
           Inl e \<Rightarrow> Inl e
         | Inr lang \<Rightarrow>
             (case toString_call (coalesce (getProp body (lit ''text'')) (JStr [])) of
                Inl e \<Rightarrow> Inl e
              | Inr ts \<Rightarrow>
                  (case (if truthy (getProp body (lit ''previous_response_id''))
                         then map_sum id Some
                                (toString_call (getProp body (lit ''previous_response_id'')))
                         else Inr None) of
                     Inl e \<Rightarrow> Inl e
                   | Inr previous_response_id \<Rightarrow>
                       (let text = trim ts
                        in if text = [] then
                             map_sum id Inl (json_B (JObj [(lit ''error'', JStr (lit ''Missing text''))]) 400)
                           else if length text > 1500 then
                             map_sum id Inl (json_B (JObj [(lit ''error'', JStr (lit ''Text too long''))]) 400)
                           else Inr (Inr (lang, text, previous_response_id))))))"

text \<open>Lines 93 to 99: what the handler makes of the provider's answer.\<close>

definition reply_B :: "upstream \<Rightarrow> js_error + response" where
  "reply_B r =
     (let data = (case up_json r of None \<Rightarrow> JObj [] | Some d \<Rightarrow> d)
      in if \<not> ok r then
           json_B (JObj [(lit ''error'', JStr (lit ''OpenAI error'')),
                         (lit ''status'', JNum (decimal (up_status r))),
                         (lit ''details'', data)])
                  (up_status r)
         else
           (case extractOutputText data of
              Inl e \<Rightarrow> Inl e
            | Inr tutorText \<Rightarrow>
                json_B (JObj [(lit ''text'', JStr tutorText),
                              (lit ''response_id'',
                               coalesce (getProp data (lit ''id'')) JNull)])
                       200))"

text \<open>Lines 69 to 91: the credential, the payload and the call.\<close>

definition generate_B ::
  "runtime \<Rightarrow> env \<Rightarrow> jsstr \<Rightarrow> jsstr \<Rightarrow> jsstr option \<Rightarrow> (js_error + response) \<times> trace" where
  "generate_B rt ev lang text previous_response_id =
     (case OPENAI_API_KEY ev of
        None \<Rightarrow>
          (json_B (JObj [(lit ''error'', JStr (lit ''Server missing OPENAI_API_KEY''))]) 500,
           [])
      | Some apiKey \<Rightarrow>
          if apiKey = [] then
            (json_B (JObj [(lit ''error'', JStr (lit ''Server missing OPENAI_API_KEY''))]) 500,
             [])
          else
            (let call =
               \<lparr>url = lit ''https://api.openai.com/v1/responses'',
                http_method = lit ''POST'',
                out_headers =
                  [(lit ''authorization'', lit ''Bearer '' @ apiKey),
                   (lit ''content-type'', lit ''application/json'')],
                payload =
                  JObj ([(lit ''model'', JStr (orElse (OPENAI_MODEL ev) (lit ''gpt-4.1''))),
                         (lit ''instructions'', JStr (buildInstructions_B lang)),
                         (lit ''input'', JStr text),
                         (lit ''max_output_tokens'', JNum (lit ''280'')),
                         (lit ''temperature'', JNum (lit ''0.6'')),
                         (lit ''store'', JBool False)] @
                        (case previous_response_id of
                           None \<Rightarrow> []
                         | Some p \<Rightarrow>
                             if p \<noteq> [] then [(lit ''previous_response_id'', JStr p)] else []))\<rparr>
             in case fetch rt call of
                  None \<Rightarrow> (Inl FetchFailed, [(call, None)])
                | Some r \<Rightarrow> (reply_B r, [(call, Some r)])))"

text \<open>
  The body of the \<open>try\<close> block, and \<open>POST\<close> with its \<open>catch\<close>. The \<open>json\<close> of the
  \<open>catch\<close> is outside the \<open>try\<close>: were it to raise, \<open>POST\<close> itself would.
\<close>

definition validated_B :: "runtime \<Rightarrow> env \<Rightarrow> request \<Rightarrow> (js_error + response) \<times> trace" where
  "validated_B rt ev req =
     (case validate_B req of
        Inl e \<Rightarrow> (Inl e, [])
      | Inr (Inl r) \<Rightarrow> (Inr r, [])
      | Inr (Inr (lang, text, previous_response_id)) \<Rightarrow>
          generate_B rt ev lang text previous_response_id)"

definition try_B :: "runtime \<Rightarrow> env \<Rightarrow> request \<Rightarrow> (js_error + response) \<times> trace" where
  "try_B rt ev req =
     (case auth_B ev req of
        Some answer \<Rightarrow> (answer, [])
      | None \<Rightarrow> validated_B rt ev req)"

definition catch_B ::
  "runtime \<Rightarrow> (js_error + response) \<times> trace \<Rightarrow> (js_error + response) \<times> trace" where
  "catch_B rt res =
     (case fst res of
        Inr r \<Rightarrow> (Inr r, snd res)
      | Inl e \<Rightarrow>
          (json_B (JObj [(lit ''error'', JStr (lit ''Server error'')),
                         (lit ''details'', JStr (errorText rt e))])
                  500,
           snd res))"

definition POST_B :: "runtime \<Rightarrow> env \<Rightarrow> request \<Rightarrow> (js_error + response) \<times> trace" where
  "POST_B rt ev req = catch_B rt (try_B rt ev req)"

section \<open>A concrete platform for the instances\<close>

text \<open>
  The instances below run the handlers on a small platform: \<open>toLowerCase\<close> restricted
  to the letters A to Z (where it agrees with the Unicode tables on ASCII strings),
  \<open>encodeURIComponent\<close> as the identity (which it is on letters, digits, \<open>-\<close> and \<open>.\<close>),
  a fixed UUID, and a provider that gives the same answer to every call.
\<close>

definition lowerASCII :: "jsstr \<Rightarrow> jsstr" where
  "lowerASCII s = map (\<lambda>c. if 0x41 \<le> c \<and> c \<le> 0x5A then c + 0x20 else c) s"

definition demo_runtime :: "upstream option \<Rightarrow> runtime" where
  "demo_runtime answer =
     \<lparr>toLowerCase = lowerASCII,
      JSON_parse = (\<lambda>t. None),
      encodeURIComponent = Some,
      fetch = (\<lambda>call. answer),
      randomUUID = Some (lit ''123e4567-e89b-12d3-a456-426614174000''),
      Date_now = 1700000000000,
      errorText = (\<lambda>e. lit ''failed'')\<rparr>"

definition demo_env :: "jsstr option \<Rightarrow> jsstr option \<Rightarrow> env" where
  "demo_env secret key =
     \<lparr>APP_TOKEN = secret, GEMINI_API_KEY = key, GEMINI_MODEL = None,
      OPENAI_API_KEY = key, OPENAI_MODEL = None\<rparr>"

definition demo_request :: "jsstr option \<Rightarrow> jsval \<Rightarrow> request" where
  "demo_request token b = \<lparr>x_app_token = token, req_json = Some b, req_text = None\<rparr>"

section \<open>Properties\<close>

subsection \<open>Strings\<close>

lemma unat_cu_of_char: "unat (cu_of_char c) = of_char c"
proof -
  have "(of_char c :: nat) < 256" by simp
  also have "(256::nat) < 2 ^ LENGTH(16)" by simp
  finally have "unat (of_nat (of_char c) :: 16 word) = of_char c"
    by (rule of_nat_inverse [OF refl])
  then show ?thesis
    by (simp only: cu_of_char_def)
qed

lemma cu_of_char_eq_iff: "cu_of_char a = cu_of_char b \<longleftrightarrow> a = b"
proof
  assume "cu_of_char a = cu_of_char b"
  then have "unat (cu_of_char a) = unat (cu_of_char b)" by simp
  then have "(of_char a :: nat) = of_char b" by (simp only: unat_cu_of_char)
  then show "a = b" by simp
qed simp

lemma lit_eq_iff: "lit a = lit b \<longleftrightarrow> a = b"
  unfolding lit_def by (simp add: inj_map_eq_map inj_on_def cu_of_char_eq_iff)

lemma lit_eq_Nil_iff: "lit a = [] \<longleftrightarrow> a = []"
  by (simp add: lit_def)

lemma length_lit: "length (lit a) = length a"
  by (simp add: lit_def)

lemma lit_Cons: "lit (c # cs) = cu_of_char c # lit cs"
  by (simp add: lit_def)

lemma trim_Nil: "trim [] = []"
  by (simp add: trim_def)

lemma trim_id:
  assumes "s \<noteq> []" and "\<not> isWhiteSpace (hd s)" and "\<not> isWhiteSpace (last s)"
  shows "trim s = s"
proof -
  from assms have a: "dropWhile isWhiteSpace s = s"
    by (cases s) simp_all
  from assms have "dropWhile isWhiteSpace (rev s) = rev s"
    by (cases "rev s") (simp_all add: hd_rev)
  with a show ?thesis by (simp add: trim_def)
qed

lemma trim_nonempty: "trim s \<noteq> [] \<Longrightarrow> s \<noteq> []"
  by (auto simp add: trim_Nil)

lemma trim_wrapped:
  assumes "c \<noteq> []" and "\<not> isWhiteSpace (hd c)" and "\<not> isWhiteSpace (last c)"
  shows "trim (nl @ c @ nl) = c"
proof -
  have ws: "isWhiteSpace 0x000A"
    by (simp add: isWhiteSpace_def)
  from assms have a: "dropWhile isWhiteSpace (nl @ c @ nl) = c @ nl"
    by (cases c) (simp_all add: nl_def ws)
  from assms have "dropWhile isWhiteSpace (rev c) = rev c"
    by (cases "rev c") (simp_all add: hd_rev)
  then have "dropWhile isWhiteSpace (rev (c @ nl)) = rev c"
    by (simp add: nl_def ws)
  with a show ?thesis
    by (simp add: trim_def)
qed

lemma startsWith_append: "startsWith (p @ s) p"
  by (induction p) simp_all

lemma startsWith_includesStr: "startsWith s p \<Longrightarrow> includesStr s p"
  by (cases s) (auto elim: startsWith.elims)

lemma includesStr_append: "includesStr (a @ p @ c) p"
proof (induction a)
  case Nil
  show ?case
    using startsWith_append [of p c] by (simp add: startsWith_includesStr)
next
  case (Cons x a)
  then show ?case by simp
qed

lemma orElse_Some_Nil: "orElse (Some s) [] = s"
  by (simp add: orElse_def)

lemma orElse_None: "orElse None d = d"
  by (simp add: orElse_def)

subsection \<open>The stages of \<open>POST\<close>\<close>

lemma json_A_accepted:
  "200 \<le> st \<Longrightarrow> st \<le> 599 \<Longrightarrow> st \<noteq> 204 \<Longrightarrow> st \<noteq> 205 \<Longrightarrow> st \<noteq> 304 \<Longrightarrow>
   json_A d st = Inr \<lparr>status = st, headers = headers_A,
            body = d\<rparr>"
  by (simp add: json_A_def construct_def)

lemma json_A_const:
  "json_A d 200 = Inr \<lparr>status = 200, headers = headers_A,
            body = d\<rparr>"
  "json_A d 400 = Inr \<lparr>status = 400, headers = headers_A,
            body = d\<rparr>"
  "json_A d 401 = Inr \<lparr>status = 401, headers = headers_A,
            body = d\<rparr>"
  "json_A d 500 = Inr \<lparr>status = 500, headers = headers_A,
            body = d\<rparr>"
  "json_A d 502 = Inr \<lparr>status = 502, headers = headers_A,
            body = d\<rparr>"
  by (simp_all add: json_A_def construct_def)

lemma json_A_out_of_range: "st < 200 \<or> 599 < st \<Longrightarrow> json_A d st = Inl RangeError"
  by (auto simp add: json_A_def construct_def)

lemma json_A_304: "d \<noteq> JUndefined \<Longrightarrow> json_A d 304 = Inl TypeError"
  by (simp add: json_A_def construct_def)

lemma json_A_headers: "json_A d st = Inr r \<Longrightarrow> headers r = headers_A"
  by (auto simp add: json_A_def construct_def split: if_splits)

lemma snd_catch_A: "snd (catch_A rt res) = snd res"
  by (simp add: catch_A_def split: sum.splits)

lemma catch_A_Inr: "catch_A rt (Inr r, tr) = (Inr r, tr)"
  by (simp add: catch_A_def)

lemma catch_A_Inl:
  "catch_A rt (Inl e, tr) = (Inr \<lparr>status = 500, headers = headers_A,
            body = JObj [(lit ''error'', JStr (lit ''Server error'')),
                         (lit ''details'', JStr (errorText rt e))]\<rparr>, tr)"
  by (simp add: catch_A_def json_A_const)

lemma POST_A_unauthorized:
  "auth_A ev req = Some (Inr r) \<Longrightarrow> POST_A rt ev req = (Inr r, [])"
  by (simp add: POST_A_def try_A_def catch_A_Inr)

lemma POST_A_authorized:
  "auth_A ev req = None \<Longrightarrow> POST_A rt ev req = catch_A rt (validated_A rt ev req)"
  by (simp add: POST_A_def try_A_def)

lemma json_B_accepted:
  "200 \<le> st \<Longrightarrow> st \<le> 599 \<Longrightarrow> st \<noteq> 204 \<Longrightarrow> st \<noteq> 205 \<Longrightarrow> st \<noteq> 304 \<Longrightarrow>
   json_B d st = Inr \<lparr>status = st, headers = headers_B,
            body = d\<rparr>"
  by (simp add: json_B_def construct_def)

lemma json_B_const:
  "json_B d 200 = Inr \<lparr>status = 200, headers = headers_B,
            body = d\<rparr>"
  "json_B d 400 = Inr \<lparr>status = 400, headers = headers_B,
            body = d\<rparr>"
  "json_B d 401 = Inr \<lparr>status = 401, headers = headers_B,
            body = d\<rparr>"
  "json_B d 500 = Inr \<lparr>status = 500, headers = headers_B,
            body = d\<rparr>"
  "json_B d 502 = Inr \<lparr>status = 502, headers = headers_B,
            body = d\<rparr>"
  by (simp_all add: json_B_def construct_def)

lemma json_B_out_of_range: "st < 200 \<or> 599 < st \<Longrightarrow> json_B d st = Inl RangeError"
  by (auto simp add: json_B_def construct_def)

lemma json_B_304: "d \<noteq> JUndefined \<Longrightarrow> json_B d 304 = Inl TypeError"
  by (simp add: json_B_def construct_def)

lemma json_B_headers: "json_B d st = Inr r \<Longrightarrow> headers r = headers_B"
  by (auto simp add: json_B_def construct_def split: if_splits)

lemma snd_catch_B: "snd (catch_B rt res) = snd res"
  by (simp add: catch_B_def split: sum.splits)

lemma catch_B_Inr: "catch_B rt (Inr r, tr) = (Inr r, tr)"
  by (simp add: catch_B_def)

lemma catch_B_Inl:
  "catch_B rt (Inl e, tr) = (Inr \<lparr>status = 500, headers = headers_B,
            body = JObj [(lit ''error'', JStr (lit ''Server error'')),
                         (lit ''details'', JStr (errorText rt e))]\<rparr>, tr)"
  by (simp add: catch_B_def json_B_const)

lemma POST_B_unauthorized:
  "auth_B ev req = Some (Inr r) \<Longrightarrow> POST_B rt ev req = (Inr r, [])"
  by (simp add: POST_B_def try_B_def catch_B_Inr)

lemma POST_B_authorized:
  "auth_B ev req = None \<Longrightarrow> POST_B rt ev req = catch_B rt (validated_B rt ev req)"
  by (simp add: POST_B_def try_B_def)

lemma POST_A_rejected:
  "auth_A ev req = None \<Longrightarrow> validate_A rt req = Inr (Inl r) \<Longrightarrow> POST_A rt ev req = (Inr r, [])"
  by (simp add: POST_A_authorized validated_A_def catch_A_Inr)

lemma POST_B_rejected:
  "auth_B ev req = None \<Longrightarrow> validate_B req = Inr (Inl r) \<Longrightarrow> POST_B rt ev req = (Inr r, [])"
  by (simp add: POST_B_authorized validated_B_def catch_B_Inr)

lemma POST_A_raised:
  "auth_A ev req = None \<Longrightarrow> validate_A rt req = Inl e \<Longrightarrow>
   POST_A rt ev req = (Inr \<lparr>status = 500, headers = headers_A,
            body = JObj [(lit ''error'', JStr (lit ''Server error'')),
                         (lit ''details'', JStr (errorText rt e))]\<rparr>, [])"
  by (simp add: POST_A_authorized validated_A_def catch_A_Inl)

lemma generate_A_called:
  "snd (generate_A rt ev lang text history) = [(call, Some up)] \<Longrightarrow>
   fst (generate_A rt ev lang text history) = reply_A rt up"
  by (auto simp add: generate_A_def Let_def split: if_splits sum.splits option.splits)

lemma try_A_called:
  "snd (try_A rt ev req) = [(call, Some up)] \<Longrightarrow> fst (try_A rt ev req) = reply_A rt up"
  by (auto simp add: try_A_def validated_A_def
      split: option.splits sum.splits prod.splits dest: generate_A_called)

lemma POST_A_called:
  "map snd (snd (POST_A rt ev req)) = [Some up] \<Longrightarrow>
   fst (POST_A rt ev req) = fst (catch_A rt (reply_A rt up, []))"
proof -
  assume "map snd (snd (POST_A rt ev req)) = [Some up]"
  then obtain call where "snd (try_A rt ev req) = [(call, Some up)]"
    by (auto simp add: POST_A_def snd_catch_A map_eq_Cons_conv)
  then have "fst (try_A rt ev req) = reply_A rt up"
    by (rule try_A_called)
  then show ?thesis
    by (simp add: POST_A_def catch_A_def split: sum.splits)
qed

lemma generate_B_called:
  "snd (generate_B rt ev lang text p) = [(call, Some up)] \<Longrightarrow>
   fst (generate_B rt ev lang text p) = reply_B up"
  by (auto simp add: generate_B_def Let_def split: if_splits sum.splits option.splits)

lemma try_B_called:
  "snd (try_B rt ev req) = [(call, Some up)] \<Longrightarrow> fst (try_B rt ev req) = reply_B up"
  by (auto simp add: try_B_def validated_B_def
      split: option.splits sum.splits prod.splits dest: generate_B_called)

lemma POST_B_called:
  "map snd (snd (POST_B rt ev req)) = [Some up] \<Longrightarrow>
   fst (POST_B rt ev req) = fst (catch_B rt (reply_B up, []))"
proof -
  assume "map snd (snd (POST_B rt ev req)) = [Some up]"
  then obtain call where "snd (try_B rt ev req) = [(call, Some up)]"
    by (auto simp add: POST_B_def snd_catch_B map_eq_Cons_conv)
  then have "fst (try_B rt ev req) = reply_B up"
    by (rule try_B_called)
  then show ?thesis
    by (simp add: POST_B_def catch_B_def split: sum.splits)
qed

lemma validate_A_null:
  "safeParseJson rt req = JNull \<or> safeParseJson rt req = JObj [] \<Longrightarrow>
   validate_A rt req = Inr (Inl \<lparr>status = 400, headers = headers_A,
            body = JObj [(lit ''error'', JStr (lit ''Missing text''))]\<rparr>)"
  by (auto simp add: validate_A_def coalesce_def nullish_def toString_call_def trim_Nil Let_def
      json_A_const)

lemma validate_B_null:
  "req_json req = None \<or> req_json req = Some (JObj []) \<Longrightarrow>
   validate_B req = Inr (Inl \<lparr>status = 400, headers = headers_B,
            body = JObj [(lit ''error'', JStr (lit ''Missing text''))]\<rparr>)"
  by (auto simp add: validate_B_def coalesce_def nullish_def toString_call_def trim_Nil Let_def
      json_B_const)

lemma safeParseJson_fails:
  "req_json req = None \<Longrightarrow>
   (\<forall>t. req_text req = Some t \<longrightarrow> t = [] \<or> JSON_parse rt t = None) \<Longrightarrow>
   safeParseJson rt req = JNull"
  by (auto simp add: safeParseJson_def split: option.splits)

lemma validate_A_text:
  assumes "toString_call (coalesce (getProp (safeParseJson rt req) (lit ''lang''))
                            (JStr (lit ''es''))) = Inr ls"
    and "toString_call (coalesce (getProp (safeParseJson rt req) (lit ''text'')) (JStr [])) = Inr ts"
  shows "validate_A rt req =
     (if trim ts = [] then
        Inr (Inl \<lparr>status = 400, headers = headers_A,
            body = JObj [(lit ''error'', JStr (lit ''Missing text''))]\<rparr>)
      else if 1500 < length (trim ts) then
        Inr (Inl \<lparr>status = 400, headers = headers_A,
            body = JObj [(lit ''error'', JStr (lit ''Text too long''))]\<rparr>)
      else Inr (Inr (normalizeLang rt ls, trim ts,
                     getProp (safeParseJson rt req) (lit ''history''))))"
  using assms by (simp add: validate_A_def Let_def json_A_const)

lemma validate_B_text:
  assumes "toString_call (coalesce (getProp (case req_json req of None \<Rightarrow> JNull | Some v \<Rightarrow> v)
                                      (lit ''lang'')) (JStr (lit ''es''))) = Inr ls"
    and "toString_call (coalesce (getProp (case req_json req of None \<Rightarrow> JNull | Some v \<Rightarrow> v)
                                    (lit ''text'')) (JStr [])) = Inr ts"
    and "(if truthy (getProp (case req_json req of None \<Rightarrow> JNull | Some v \<Rightarrow> v)
                       (lit ''previous_response_id''))
          then map_sum id Some
                 (toString_call (getProp (case req_json req of None \<Rightarrow> JNull | Some v \<Rightarrow> v)
                                   (lit ''previous_response_id'')))
          else Inr None) = Inr prev"
  shows "validate_B req =
     (if trim ts = [] then
        Inr (Inl \<lparr>status = 400, headers = headers_B,
            body = JObj [(lit ''error'', JStr (lit ''Missing text''))]\<rparr>)
      else if 1500 < length (trim ts) then
        Inr (Inl \<lparr>status = 400, headers = headers_B,
            body = JObj [(lit ''error'', JStr (lit ''Text too long''))]\<rparr>)
      else Inr (Inr (ls, trim ts, prev)))"
  using assms by (simp add: validate_B_def Let_def json_B_const)

lemma validate_A_lang:
  "validate_A rt req = Inr (Inr (l, t, h)) \<Longrightarrow>
   \<exists>ls. toString_call (coalesce (getProp (safeParseJson rt req) (lit ''lang''))
                          (JStr (lit ''es''))) = Inr ls \<and>
        l = normalizeLang rt ls"
  by (auto simp add: validate_A_def Let_def json_A_const split: sum.splits if_splits)

lemma validate_B_lang:
  "validate_B req = Inr (Inr (l, t, p)) \<Longrightarrow>
   toString_call (coalesce (getProp (case req_json req of None \<Rightarrow> JNull | Some v \<Rightarrow> v)
                              (lit ''lang'')) (JStr (lit ''es''))) = Inr l"
  by (auto simp add: validate_B_def Let_def json_B_const split: sum.splits if_splits)

lemma reply_A_empty:
  assumes "ok up" and "extractTextFromGemini (case up_json up of None \<Rightarrow> JObj [] | Some d \<Rightarrow> d) = []"
  shows "reply_A rt up =
     (case response_id_A rt (case up_json up of None \<Rightarrow> JObj [] | Some d \<Rightarrow> d) of
        Inl e \<Rightarrow> Inl e
      | Inr rid \<Rightarrow>
          Inr \<lparr>status = 502, headers = headers_A,
            body = JObj [(lit ''error'', JStr (lit ''Empty response'')),
                         (lit ''response_id'', JStr rid),
                         (lit ''details'', (case up_json up of None \<Rightarrow> JObj [] | Some d \<Rightarrow> d))]\<rparr>)"
  using assms by (simp add: reply_A_def Let_def json_A_const split: sum.splits)

lemma reply_B_ok:
  assumes "ok up" and "extractOutputText (case up_json up of None \<Rightarrow> JObj [] | Some d \<Rightarrow> d) = Inr t"
  shows "reply_B up =
     Inr \<lparr>status = 200, headers = headers_B,
            body = JObj [(lit ''text'', JStr t),
                         (lit ''response_id'', coalesce (getProp (case up_json up of None \<Rightarrow> JObj [] | Some d \<Rightarrow> d) (lit ''id'')) JNull)]\<rparr>"
  using assms by (simp add: reply_B_def Let_def json_B_const)

lemma reply_A_error:
  "\<not> ok up \<Longrightarrow>
   reply_A rt up =
     json_A (JObj [(lit ''error'', JStr (lit ''Gemini error'')),
                   (lit ''status'', JNum (decimal (up_status up))),
                   (lit ''details'', (case up_json up of None \<Rightarrow> JObj [] | Some d \<Rightarrow> d))])
            (up_status up)"
  by (simp add: reply_A_def Let_def)

lemma reply_B_error:
  "\<not> ok up \<Longrightarrow>
   reply_B up =
     json_B (JObj [(lit ''error'', JStr (lit ''OpenAI error'')),
                   (lit ''status'', JNum (decimal (up_status up))),
                   (lit ''details'', (case up_json up of None \<Rightarrow> JObj [] | Some d \<Rightarrow> d))])
            (up_status up)"
  by (simp add: reply_B_def Let_def)

lemma response_id_A_printed:
  assumes "ToString (getProp data (lit ''responseId'')) = Inr printed"
  shows "response_id_A rt data =
     Inr (if truthy (getProp data (lit ''responseId'')) \<and> printed \<noteq> [] then printed
          else (case randomUUID rt of
                  Some u \<Rightarrow> u
                | None \<Rightarrow> lit ''r_'' @ decimal (Date_now rt)))"
  using assms by (simp add: response_id_A_def Let_def)

lemma fresh_nonempty:
  "randomUUID rt \<noteq> Some [] \<Longrightarrow>
   (case randomUUID rt of Some u \<Rightarrow> u | None \<Rightarrow> lit ''r_'' @ decimal (Date_now rt)) \<noteq> []"
  by (cases "randomUUID rt") (auto simp add: lit_eq_Nil_iff)

subsection \<open>The handlers on the concrete platform\<close>

lemma trim_hola: "trim (lit ''hola'') = lit ''hola''"
  by (rule trim_id) (simp_all add: lit_def cu_of_char_def isWhiteSpace_def)

lemma lowerASCII_es: "lowerASCII (lit ''es'') = lit ''es''"
  by (simp add: lowerASCII_def lit_def cu_of_char_def)

lemma normalizeLang_demo_es: "normalizeLang (demo_runtime a) (lit ''es'') = lit ''es''"
proof -
  have "trim (lit ''es'') = lit ''es''"
    by (rule trim_id) (simp_all add: lit_def cu_of_char_def isWhiteSpace_def)
  moreover have "\<not> includesStr (lit ''es'') (lit ''ital'')"
    by (simp add: lit_def cu_of_char_def)
  ultimately show ?thesis
    by (simp add: normalizeLang_def demo_runtime_def lowerASCII_es lit_eq_iff lit_eq_Nil_iff)
qed

lemma toLowerCase_demo: "toLowerCase (demo_runtime a) = lowerASCII"
  by (simp add: demo_runtime_def)

lemma randomUUID_demo: "randomUUID (demo_runtime a) = Some (lit ''123e4567-e89b-12d3-a456-426614174000'')"
  by (simp add: demo_runtime_def)

lemma APP_TOKEN_demo: "APP_TOKEN (demo_env s k) = s"
  by (simp add: demo_env_def)

lemma x_app_token_demo: "x_app_token (demo_request t b) = t"
  by (simp add: demo_request_def)

lemma safeParseJson_demo: "safeParseJson rt (demo_request h b) = b"
  by (simp add: safeParseJson_def demo_request_def)

lemma req_json_demo: "req_json (demo_request h b) = Some b"
  by (simp add: demo_request_def)

lemma getProp_demo_text:
  "getProp (JObj [(lit ''lang'', l), (lit ''text'', t)]) (lit ''text'') = t"
  "getProp (JObj [(lit ''lang'', l), (lit ''text'', t)]) (lit ''lang'') = l"
  "getProp (JObj [(lit ''lang'', l),
                  (lit ''text'', t)]) (lit ''previous_response_id'') = JUndefined"
  "getProp (JObj [(lit ''lang'', l), (lit ''text'', t)]) (lit ''history'') = JUndefined"
  by (simp_all add: lit_eq_iff)

lemma validate_A_demo_hola:
  "validate_A (demo_runtime a) (demo_request h (JObj [(lit ''text'', JStr (lit ''hola''))])) =
     Inr (Inr (lit ''es'', lit ''hola'', JUndefined))"
  by (simp add: validate_A_def safeParseJson_def demo_request_def coalesce_def nullish_def
      toString_call_def lit_eq_iff lit_eq_Nil_iff normalizeLang_demo_es trim_hola
      length_lit Let_def)

lemma validate_B_demo_hola:
  "validate_B (demo_request h (JObj [(lit ''text'', JStr (lit ''hola''))])) =
     Inr (Inr (lit ''es'', lit ''hola'', None))"
  by (simp add: validate_B_def demo_request_def coalesce_def nullish_def
      toString_call_def lit_eq_iff lit_eq_Nil_iff trim_hola length_lit Let_def)

lemma auth_A_no_secret: "auth_A (demo_env None k) req = None"
  by (simp add: auth_A_def demo_env_def orElse_def trim_Nil)

lemma auth_B_no_secret: "auth_B (demo_env None k) req = None"
  by (simp add: auth_B_def demo_env_def orElse_def)

lemma trim_key: "trim (lit ''key'') = lit ''key''"
  by (rule trim_id) (simp_all add: lit_def cu_of_char_def isWhiteSpace_def)

lemma trim_model: "trim (lit ''gemini-2.0-flash'') = lit ''gemini-2.0-flash''"
  by (rule trim_id) (simp_all add: lit_def cu_of_char_def isWhiteSpace_def)

lemma generate_A_demo:
  "map snd (snd (generate_A (demo_runtime a) (demo_env s (Some (lit ''key''))) lang
                   (lit ''hola'') JUndefined)) = [a]"
  by (cases a)
     (simp_all add: generate_A_def demo_env_def demo_runtime_def orElse_def trim_key trim_model
      lit_eq_Nil_iff buildContents_def Let_def)

lemma generate_B_demo:
  "map snd (snd (generate_B (demo_runtime a) (demo_env s (Some (lit ''key''))) lang
                   (lit ''hola'') None)) = [a]"
  by (cases a)
     (simp_all add: generate_B_def demo_env_def demo_runtime_def lit_eq_Nil_iff Let_def)

lemma answers_A_demo_hola:
  "map snd (snd (POST_A (demo_runtime a) (demo_env None (Some (lit ''key'')))
                   (demo_request h (JObj [(lit ''text'', JStr (lit ''hola''))])))) = [a]"
  by (simp add: POST_A_def snd_catch_A try_A_def auth_A_no_secret validated_A_def
      validate_A_demo_hola generate_A_demo)

lemma answers_B_demo_hola:
  "map snd (snd (POST_B (demo_runtime a) (demo_env None (Some (lit ''key'')))
                   (demo_request h (JObj [(lit ''text'', JStr (lit ''hola''))])))) = [a]"
  by (simp add: POST_B_def snd_catch_B try_B_def auth_B_no_secret validated_B_def
      validate_B_demo_hola generate_B_demo)

lemma answers_A_demo_lang:
  "map snd (snd (POST_A (demo_runtime a) (demo_env None (Some (lit ''key'')))
                   (demo_request h (JObj [(lit ''lang'', JStr l),
                                          (lit ''text'', JStr (lit ''hola''))])))) = [a]"
proof -
  have "validate_A (demo_runtime a)
          (demo_request h (JObj [(lit ''lang'', JStr l), (lit ''text'', JStr (lit ''hola''))])) =
        Inr (Inr (normalizeLang (demo_runtime a) l, lit ''hola'', JUndefined))"
    by (simp add: validate_A_text [where ls = l and ts = "lit ''hola''"] safeParseJson_demo
        getProp_demo_text coalesce_def nullish_def toString_call_def trim_hola length_lit
        lit_eq_Nil_iff del: getProp.simps)
  then show ?thesis
    by (simp add: POST_A_def snd_catch_A try_A_def auth_A_no_secret validated_A_def
        generate_A_demo)
qed

lemma answers_B_demo_lang:
  "map snd (snd (POST_B (demo_runtime a) (demo_env None (Some (lit ''key'')))
                   (demo_request h (JObj [(lit ''lang'', JStr l),
                                          (lit ''text'', JStr (lit ''hola''))])))) = [a]"
proof -
  have "validate_B
          (demo_request h (JObj [(lit ''lang'', JStr l), (lit ''text'', JStr (lit ''hola''))])) =
        Inr (Inr (l, lit ''hola'', None))"
    by (simp add: validate_B_text [where ls = l and ts = "lit ''hola''" and prev = None]
        req_json_demo getProp_demo_text coalesce_def nullish_def toString_call_def trim_hola
        length_lit lit_eq_Nil_iff del: getProp.simps)
  then show ?thesis
    by (simp add: POST_B_def snd_catch_B try_B_def auth_B_no_secret validated_B_def
        generate_B_demo)
qed

lemma ok_200: "ok \<lparr>up_status = 200, up_json = j\<rparr>"
  by (simp add: ok_def)

lemma extract_A_empty_object: "extractTextFromGemini (JObj []) = []"
  by (simp add: extractTextFromGemini_def)

lemma extract_B_empty_object: "extractOutputText (JObj []) = Inr []"
  by (simp add: extractOutputText_def coalesce_def nullish_def trim_Nil)

lemma response_id_A_demo_empty_object:
  "response_id_A (demo_runtime a) (JObj []) = Inr (lit ''123e4567-e89b-12d3-a456-426614174000'')"
  by (simp add: response_id_A_def demo_runtime_def)

lemma decimal_429: "decimal 429 = lit ''429''"
  by (simp add: decimal.simps lit_def cu_of_char_def)

lemma trim_s3cret:
  "trim (lit '' s3cret '') = lit ''s3cret''" "trim (lit ''s3cret'') = lit ''s3cret''"
  by (simp_all add: trim_def lit_def cu_of_char_def isWhiteSpace_def)

lemma trim_replicate_a: "0 < n \<Longrightarrow> trim (replicate n 0x61) = replicate n 0x61"
  by (rule trim_id) (simp_all add: isWhiteSpace_def hd_replicate last_replicate)

lemma trim_lower_ITALIANO: "trim (lowerASCII (lit '' ITALIANO '')) = lit ''italiano''"
  by (simp add: trim_def lowerASCII_def lit_def cu_of_char_def isWhiteSpace_def)

lemma includes_ital: "includesStr (lit ''italiano'') (lit ''ital'')"
  by (simp add: lit_def cu_of_char_def)

lemma trim_hola_como_estas:
  "trim (join nl [lit ''Hola'',
                  lit ([CHR 0xBF] @ ''C'' @ [CHR 0xF3] @ ''mo est'' @ [CHR 0xE1] @ ''s?'')]) =
   lit (''Hola'' @ [CHR 0x0A] @ [CHR 0xBF] @ ''C'' @ [CHR 0xF3] @ ''mo est'' @ [CHR 0xE1] @ ''s?'')"
proof -
  have "join nl [lit ''Hola'',
                 lit ([CHR 0xBF] @ ''C'' @ [CHR 0xF3] @ ''mo est'' @ [CHR 0xE1] @ ''s?'')] =
        lit (''Hola'' @ [CHR 0x0A] @ [CHR 0xBF] @ ''C'' @ [CHR 0xF3] @ ''mo est'' @ [CHR 0xE1] @ ''s?'')"
    by (simp add: nl_def lit_def cu_of_char_def)
  moreover have "trim (lit (''Hola'' @ [CHR 0x0A] @ [CHR 0xBF] @ ''C'' @ [CHR 0xF3] @ ''mo est'' @
                            [CHR 0xE1] @ ''s?'')) =
        lit (''Hola'' @ [CHR 0x0A] @ [CHR 0xBF] @ ''C'' @ [CHR 0xF3] @ ''mo est'' @ [CHR 0xE1] @ ''s?'')"
    by (rule trim_id) (simp_all add: lit_def cu_of_char_def isWhiteSpace_def)
  ultimately show ?thesis by simp
qed

lemma errorText_demo: "errorText (demo_runtime a) e = lit ''failed''"
  by (simp add: demo_runtime_def)

subsection \<open>The target language (C1)\<close>

lemma buildInstructions_A_names_target:
  "includesStr (buildInstructions_A lang) (lit ''Idioma alvo: '' @ target lang @ lit ''.'')"
proof -
  let ?head = "lit (''Voc'' @ [CHR 0xEA] @ '' '' @ [CHR 0xE9] @ '' um tutor de idiomas.'') @ nl"
  let ?tail =
    "nl @ lit (''Idioma da interface/explica'' @ [CHR 0xE7, CHR 0xF5] @ ''es: Portugu'' @
               [CHR 0xEA] @ ''s (Brasil).'') @
     nl @
     nl @ lit ''Regras:'' @
     nl @ lit ''- Responda curto e natural no idioma alvo.'' @
     nl @ lit (''- Depois inclua uma se'' @ [CHR 0xE7, CHR 0xE3] @ ''o '' @ [CHR 0x22] @
               ''Corre'' @ [CHR 0xE7, CHR 0xF5] @ ''es'' @ [CHR 0x22] @
               '' corrigindo a frase do usu'' @ [CHR 0xE1] @ ''rio (se necess'' @
               [CHR 0xE1] @ ''rio).'') @
     nl @ lit (''- Depois inclua uma se'' @ [CHR 0xE7, CHR 0xE3] @ ''o '' @ [CHR 0x22] @
               ''Dica'' @ [CHR 0x22] @ '' com 1 dica objetiva.'') @
     nl @ lit (''- Se o usu'' @ [CHR 0xE1] @ ''rio escrever em PT-BR, pe'' @ [CHR 0xE7] @
               ''a para ele tentar no idioma alvo.'')"
  let ?core = "?head @ (lit ''Idioma alvo: '' @ target lang @ lit ''.'') @ ?tail"
  have t: "template_A (target lang) = nl @ ?core @ nl"
    by (simp add: template_A_def)
  have 1: "?core \<noteq> []"
    by (simp add: lit_def)
  have 2: "\<not> isWhiteSpace (hd ?core)"
    by (simp add: lit_def cu_of_char_def isWhiteSpace_def)
  have 3: "\<not> isWhiteSpace (last ?core)"
    by (simp add: lit_def cu_of_char_def isWhiteSpace_def nl_def)
  have "buildInstructions_A lang = ?core"
    unfolding buildInstructions_A_def t using 1 2 3 by (rule trim_wrapped)
  then show ?thesis
    by (simp only: includesStr_append)
qed

lemma buildInstructions_B_text:
  "buildInstructions_B lang =
     (lit (''Voc'' @ [CHR 0xEA] @ '' '' @ [CHR 0xE9] @ '' um tutor de idiomas.'') @ nl) @
     (lit ''Idioma alvo: '' @ target lang @ lit ''.'') @
     nl @ lit (''Idioma das explica'' @ [CHR 0xE7, CHR 0xF5] @ ''es: Portugu'' @
               [CHR 0xEA] @ ''s (Brasil).'') @
     nl @ lit ''Regras:'' @
     nl @ lit ''- Responda curto e natural no idioma alvo.'' @
     nl @ lit (''- Depois inclua '' @ [CHR 0x22] @ ''Corre'' @ [CHR 0xE7, CHR 0xF5] @ ''es'' @
               [CHR 0x22] @ '' corrigindo a frase do usu'' @ [CHR 0xE1] @
               ''rio (se necess'' @ [CHR 0xE1] @ ''rio).'') @
     nl @ lit (''- Depois inclua '' @ [CHR 0x22] @ ''Dica'' @ [CHR 0x22] @
               '' com 1 dica objetiva.'') @
     nl @ lit (''- Se o usu'' @ [CHR 0xE1] @ ''rio escrever em PT-BR, pe'' @ [CHR 0xE7] @
               ''a para ele tentar no idioma alvo.'')"
  (is "_ = ?core")
proof -
  have t: "template_B (target lang) = nl @ ?core @ nl"
    by (simp add: template_B_def)
  have 1: "?core \<noteq> []"
    by (simp add: lit_def)
  have 2: "\<not> isWhiteSpace (hd ?core)"
    by (simp add: lit_def cu_of_char_def isWhiteSpace_def)
  have 3: "\<not> isWhiteSpace (last ?core)"
    by (simp add: lit_def cu_of_char_def isWhiteSpace_def nl_def)
  show ?thesis
    unfolding buildInstructions_B_def t using 1 2 3 by (rule trim_wrapped)
qed

lemma buildInstructions_B_names_target:
  "includesStr (buildInstructions_B lang) (lit ''Idioma alvo: '' @ target lang @ lit ''.'')"
  by (simp only: buildInstructions_B_text includesStr_append)

lemma buildInstructions_B_differ: "buildInstructions_B (lit ''es'') \<noteq> buildInstructions_B (lit ''it'')"
  by (simp add: buildInstructions_B_text target_def lit_eq_iff lit_Cons cu_of_char_eq_iff)

lemma generate_A_instructions:
  "snd (generate_A rt ev lang tx history) \<noteq> [] \<Longrightarrow>
   map (\<lambda>c. getProp (getFirst (getProp (getProp (payload (fst c)) (lit ''system_instruction''))
                                   (lit ''parts'')))
                 (lit ''text''))
       (snd (generate_A rt ev lang tx history)) = [JStr (buildInstructions_A lang)]"
  by (auto simp add: generate_A_def Let_def lit_eq_iff split: if_splits option.splits sum.splits)

lemma generate_B_instructions:
  "snd (generate_B rt ev lang tx p) \<noteq> [] \<Longrightarrow>
   map (\<lambda>c. getProp (payload (fst c)) (lit ''instructions''))
       (snd (generate_B rt ev lang tx p)) = [JStr (buildInstructions_B lang)]"
  by (auto simp add: generate_B_def Let_def lit_eq_iff map_add_def
      split: if_splits option.splits sum.splits)

lemma POST_A_instructions:
  assumes "snd (POST_A rt ev req) \<noteq> []"
  shows "\<exists>ls. toString_call (coalesce (getProp (safeParseJson rt req) (lit ''lang''))
                               (JStr (lit ''es''))) = Inr ls \<and>
              map (\<lambda>c. getProp (getFirst (getProp (getProp (payload (fst c))
                                                      (lit ''system_instruction''))
                                              (lit ''parts'')))
                            (lit ''text''))
                  (snd (POST_A rt ev req)) = [JStr (buildInstructions_A (normalizeLang rt ls))]"
proof -
  from assms have t: "snd (try_A rt ev req) \<noteq> []"
    by (simp add: POST_A_def snd_catch_A)
  then have au: "auth_A ev req = None"
    by (cases "auth_A ev req") (simp_all add: try_A_def)
  with t have va: "snd (validated_A rt ev req) \<noteq> []"
    by (simp add: try_A_def)
  then obtain l tx h where v: "validate_A rt req = Inr (Inr (l, tx, h))"
    by (auto simp add: validated_A_def split: sum.splits)
  with va have g: "snd (generate_A rt ev l tx h) \<noteq> []"
    by (simp add: validated_A_def)
  from v obtain ls where ls:
    "toString_call (coalesce (getProp (safeParseJson rt req) (lit ''lang'')) (JStr (lit ''es'')))
       = Inr ls" "l = normalizeLang rt ls"
    using validate_A_lang by blast
  have "snd (POST_A rt ev req) = snd (generate_A rt ev l tx h)"
    using au v by (simp add: POST_A_def snd_catch_A try_A_def validated_A_def)
  with generate_A_instructions [OF g] ls show ?thesis
    by auto
qed

lemma POST_B_instructions:
  assumes "snd (POST_B rt ev req) \<noteq> []"
  shows "\<exists>ls. toString_call (coalesce (getProp (case req_json req of None \<Rightarrow> JNull | Some v \<Rightarrow> v)
                                         (lit ''lang'')) (JStr (lit ''es''))) = Inr ls \<and>
              map (\<lambda>c. getProp (payload (fst c)) (lit ''instructions''))
                  (snd (POST_B rt ev req)) = [JStr (buildInstructions_B ls)]"
proof -
  from assms have t: "snd (try_B rt ev req) \<noteq> []"
    by (simp add: POST_B_def snd_catch_B)
  then have au: "auth_B ev req = None"
    by (cases "auth_B ev req") (simp_all add: try_B_def)
  with t have va: "snd (validated_B rt ev req) \<noteq> []"
    by (simp add: try_B_def)
  then obtain l tx p where v: "validate_B req = Inr (Inr (l, tx, p))"
    by (auto simp add: validated_B_def split: sum.splits)
  with va have g: "snd (generate_B rt ev l tx p) \<noteq> []"
    by (simp add: validated_B_def)
  have "snd (POST_B rt ev req) = snd (generate_B rt ev l tx p)"
    using au v by (simp add: POST_B_def snd_catch_B try_B_def validated_B_def)
  with generate_B_instructions [OF g] validate_B_lang [OF v] show ?thesis
    by auto
qed

text \<open>
  Claim C1, as amended. Variant A normalizes: the \<open>lang\<close> of the body, or \<open>es\<close> when it
  is absent, is lowercased and trimmed, and the target is Italian when the result is
  \<open>it\<close> or contains \<open>ital\<close>, Spanish otherwise (so also for an absent \<open>lang\<close>, since
  lowercasing leaves \<open>es\<close> alone). Variant B does not normalize: the target is Italian
  only when \<open>lang\<close> is exactly \<open>it\<close>, and Spanish for every other value and for an absent
  \<open>lang\<close>. In both variants the system instruction of the call that is made is built for
  that target and names it in its line \<open>Idioma alvo\<close>.
\<close>

theorem target_language_selection:
  "(snd (POST_A rt ev req) \<noteq> [] \<longrightarrow>
      (\<exists>ls. toString_call (coalesce (getProp (safeParseJson rt req) (lit ''lang''))
                              (JStr (lit ''es''))) = Inr ls \<and>
            map (\<lambda>c. getProp (getFirst (getProp (getProp (payload (fst c))
                                                    (lit ''system_instruction''))
                                            (lit ''parts'')))
                          (lit ''text''))
                (snd (POST_A rt ev req)) =
              [JStr (buildInstructions_A
                       (if trim (toLowerCase rt ls) = lit ''it'' \<or>
                           includesStr (trim (toLowerCase rt ls)) (lit ''ital'')
                        then lit ''it'' else lit ''es''))])) \<and>
   (snd (POST_B rt ev req) \<noteq> [] \<longrightarrow>
      (\<exists>ls. toString_call (coalesce (getProp (case req_json req of None \<Rightarrow> JNull | Some v \<Rightarrow> v)
                                       (lit ''lang'')) (JStr (lit ''es''))) = Inr ls \<and>
            map (\<lambda>c. getProp (payload (fst c)) (lit ''instructions''))
                (snd (POST_B rt ev req)) = [JStr (buildInstructions_B ls)])) \<and>
   toString_call (coalesce JUndefined (JStr (lit ''es''))) = Inr (lit ''es'') \<and>
   (toLowerCase rt (lit ''es'') = lit ''es'' \<longrightarrow> normalizeLang rt (lit ''es'') = lit ''es'') \<and>
   includesStr (buildInstructions_A lang)
     (lit ''Idioma alvo: '' @
      (if lang = lit ''it'' then lit ''Italiano'' else lit ''Espanhol (rioplatense neutro)'') @
      lit ''.'') \<and>
   includesStr (buildInstructions_B lang)
     (lit ''Idioma alvo: '' @
      (if lang = lit ''it'' then lit ''Italiano'' else lit ''Espanhol (rioplatense neutro)'') @
      lit ''.'')"
proof (intro conjI impI)
  assume "snd (POST_A rt ev req) \<noteq> []"
  then show "\<exists>ls. toString_call (coalesce (getProp (safeParseJson rt req) (lit ''lang''))
                              (JStr (lit ''es''))) = Inr ls \<and>
            map (\<lambda>c. getProp (getFirst (getProp (getProp (payload (fst c))
                                                    (lit ''system_instruction''))
                                            (lit ''parts'')))
                          (lit ''text''))
                (snd (POST_A rt ev req)) =
              [JStr (buildInstructions_A
                       (if trim (toLowerCase rt ls) = lit ''it'' \<or>
                           includesStr (trim (toLowerCase rt ls)) (lit ''ital'')
                        then lit ''it'' else lit ''es''))]"
    using POST_A_instructions [of rt ev req] by (simp add: normalizeLang_def Let_def)
next
  assume "snd (POST_B rt ev req) \<noteq> []"
  then show "\<exists>ls. toString_call (coalesce (getProp (case req_json req of None \<Rightarrow> JNull | Some v \<Rightarrow> v)
                                       (lit ''lang'')) (JStr (lit ''es''))) = Inr ls \<and>
            map (\<lambda>c. getProp (payload (fst c)) (lit ''instructions''))
                (snd (POST_B rt ev req)) = [JStr (buildInstructions_B ls)]"
    by (rule POST_B_instructions)
next
  show "toString_call (coalesce JUndefined (JStr (lit ''es''))) = Inr (lit ''es'')"
    by (simp add: coalesce_def nullish_def toString_call_def)
next
  assume "toLowerCase rt (lit ''es'') = lit ''es''"
  moreover have "trim (lit ''es'') = lit ''es''"
    by (rule trim_id) (simp_all add: lit_def cu_of_char_def isWhiteSpace_def)
  moreover have "\<not> includesStr (lit ''es'') (lit ''ital'')"
    by (simp add: lit_def cu_of_char_def)
  ultimately show "normalizeLang rt (lit ''es'') = lit ''es''"
    by (simp add: normalizeLang_def lit_eq_iff lit_eq_Nil_iff)
next
  show "includesStr (buildInstructions_A lang)
     (lit ''Idioma alvo: '' @
      (if lang = lit ''it'' then lit ''Italiano'' else lit ''Espanhol (rioplatense neutro)'') @
      lit ''.'')"
    using buildInstructions_A_names_target [of lang] by (simp only: target_def)
next
  show "includesStr (buildInstructions_B lang)
     (lit ''Idioma alvo: '' @
      (if lang = lit ''it'' then lit ''Italiano'' else lit ''Espanhol (rioplatense neutro)'') @
      lit ''.'')"
    using buildInstructions_B_names_target [of lang] by (simp only: target_def)
qed

theorem target_language_selection_witness:
  "map (\<lambda>c. getProp (getFirst (getProp (getProp (payload (fst c)) (lit ''system_instruction''))
                                   (lit ''parts'')))
                 (lit ''text''))
       (snd (POST_A (demo_runtime None) (demo_env None (Some (lit ''key'')))
               (demo_request None (JObj [(lit ''lang'', JStr (lit '' ITALIANO '')),
                                         (lit ''text'', JStr (lit ''hola''))])))) =
     [JStr (buildInstructions_A (lit ''it''))] \<and>
   map (\<lambda>c. getProp (payload (fst c)) (lit ''instructions''))
       (snd (POST_B (demo_runtime None) (demo_env None (Some (lit ''key'')))
               (demo_request None (JObj [(lit ''lang'', JStr (lit ''it'')),
                                         (lit ''text'', JStr (lit ''hola''))])))) =
     [JStr (buildInstructions_B (lit ''it''))] \<and>
   normalizeLang (demo_runtime None) (lit ''es'') = lit ''es'' \<and>
   includesStr (buildInstructions_A (lit ''it'')) (lit ''Idioma alvo: '' @ lit ''Italiano'' @ lit ''.'') \<and>
   includesStr (buildInstructions_B (lit ''it'')) (lit ''Idioma alvo: '' @ lit ''Italiano'' @ lit ''.'')"
proof -
  have a: "snd (POST_A (demo_runtime None) (demo_env None (Some (lit ''key'')))
               (demo_request None (JObj [(lit ''lang'', JStr (lit '' ITALIANO '')),
                                         (lit ''text'', JStr (lit ''hola''))]))) \<noteq> []"
    using answers_A_demo_lang [of None None "lit '' ITALIANO ''"] by auto
  have b: "snd (POST_B (demo_runtime None) (demo_env None (Some (lit ''key'')))
               (demo_request None (JObj [(lit ''lang'', JStr (lit ''it'')),
                                         (lit ''text'', JStr (lit ''hola''))]))) \<noteq> []"
    using answers_B_demo_lang [of None None "lit ''it''"] by auto
  show ?thesis
    using a
      target_language_selection
        [where rt = "demo_runtime None" and ev = "demo_env None (Some (lit ''key''))"
           and req = "demo_request None (JObj [(lit ''lang'', JStr (lit '' ITALIANO '')),
                                               (lit ''text'', JStr (lit ''hola''))])"
           and lang = "lit ''it''"]
      b
      target_language_selection
        [where rt = "demo_runtime None" and ev = "demo_env None (Some (lit ''key''))"
           and req = "demo_request None (JObj [(lit ''lang'', JStr (lit ''it'')),
                                               (lit ''text'', JStr (lit ''hola''))])"
           and lang = "lit ''it''"]
    by (simp add: safeParseJson_demo req_json_demo getProp_demo_text coalesce_def nullish_def
        toString_call_def toLowerCase_demo trim_lower_ITALIANO includes_ital lowerASCII_es
        lit_eq_iff del: getProp.simps)
qed

text \<open>
  Counterexample to the original wording, in variant B: \<open>lang\<close> is \<open>Italiano\<close>, whose
  lowercased and trimmed form contains \<open>ital\<close>, and the instruction sent to the provider
  is the one for Spanish, which is not the one for Italian.
\<close>

theorem target_language_selection_counterexample:
  "includesStr (trim (lowerASCII (lit ''Italiano''))) (lit ''ital'') \<and>
   map (\<lambda>c. getProp (payload (fst c)) (lit ''instructions''))
       (snd (POST_B (demo_runtime None) (demo_env None (Some (lit ''key'')))
               (demo_request None (JObj [(lit ''lang'', JStr (lit ''Italiano'')),
                                         (lit ''text'', JStr (lit ''hola''))])))) =
     [JStr (buildInstructions_B (lit ''es''))] \<and>
   includesStr (buildInstructions_B (lit ''es''))
     (lit ''Idioma alvo: '' @ lit ''Espanhol (rioplatense neutro)'' @ lit ''.'') \<and>
   buildInstructions_B (lit ''es'') \<noteq> buildInstructions_B (lit ''it'')"
proof (intro conjI)
  show "includesStr (trim (lowerASCII (lit ''Italiano''))) (lit ''ital'')"
    by (simp add: trim_def lowerASCII_def lit_def cu_of_char_def isWhiteSpace_def)
  have "snd (POST_B (demo_runtime None) (demo_env None (Some (lit ''key'')))
               (demo_request None (JObj [(lit ''lang'', JStr (lit ''Italiano'')),
                                         (lit ''text'', JStr (lit ''hola''))]))) \<noteq> []"
    using answers_B_demo_lang [of None None "lit ''Italiano''"] by auto
  from POST_B_instructions [OF this]
  have "map (\<lambda>c. getProp (payload (fst c)) (lit ''instructions''))
       (snd (POST_B (demo_runtime None) (demo_env None (Some (lit ''key'')))
               (demo_request None (JObj [(lit ''lang'', JStr (lit ''Italiano'')),
                                         (lit ''text'', JStr (lit ''hola''))])))) =
     [JStr (buildInstructions_B (lit ''Italiano''))]"
    by (simp add: req_json_demo getProp_demo_text coalesce_def nullish_def toString_call_def
        del: getProp.simps)
  moreover have "buildInstructions_B (lit ''Italiano'') = buildInstructions_B (lit ''es'')"
    by (simp add: buildInstructions_B_def target_def lit_eq_iff)
  ultimately show "map (\<lambda>c. getProp (payload (fst c)) (lit ''instructions''))
       (snd (POST_B (demo_runtime None) (demo_env None (Some (lit ''key'')))
               (demo_request None (JObj [(lit ''lang'', JStr (lit ''Italiano'')),
                                         (lit ''text'', JStr (lit ''hola''))])))) =
     [JStr (buildInstructions_B (lit ''es''))]"
    by simp
  show "includesStr (buildInstructions_B (lit ''es''))
     (lit ''Idioma alvo: '' @ lit ''Espanhol (rioplatense neutro)'' @ lit ''.'')"
    using buildInstructions_B_names_target [of "lit ''es''"]
    by (simp add: target_def lit_eq_iff)
  show "buildInstructions_B (lit ''es'') \<noteq> buildInstructions_B (lit ''it'')"
    by (rule buildInstructions_B_differ)
qed

subsection \<open>The shared secret (C2)\<close>

text \<open>
  Claim C2, as amended. Variant A trims the configured secret and the header before it
  compares them, and it checks only when the trimmed secret is non-empty: then an absent
  header, or one whose trimmed value differs from the trimmed secret, is answered with
  status 401 and the body \<open>{error: "Unauthorized"}\<close>, with no outbound call, and a header
  whose trimmed value equals the trimmed secret lets the request go on to validation.
  When the secret is absent or empty once trimmed, every request goes on to validation.
  Variant B does not trim: it checks when the secret is non-empty, answers 401 to an
  absent header or one that differs from the secret as configured, and lets the request
  go on when the two are equal as they are, or when the secret is absent or empty.
\<close>

theorem shared_secret_check:
  "(APP_TOKEN ev = Some secret \<and> trim secret \<noteq> [] \<longrightarrow>
      (x_app_token req = None \<longrightarrow>
         POST_A rt ev req = (Inr \<lparr>status = 401, headers = headers_A,
            body = JObj [(lit ''error'', JStr (lit ''Unauthorized''))]\<rparr>, [])) \<and>
      (x_app_token req = Some sent \<and> trim sent \<noteq> trim secret \<longrightarrow>
         POST_A rt ev req = (Inr \<lparr>status = 401, headers = headers_A,
            body = JObj [(lit ''error'', JStr (lit ''Unauthorized''))]\<rparr>, [])) \<and>
      (x_app_token req = Some sent \<and> trim sent = trim secret \<longrightarrow>
         POST_A rt ev req = catch_A rt (validated_A rt ev req))) \<and>
   (APP_TOKEN ev = None \<or> (APP_TOKEN ev = Some secret \<and> trim secret = []) \<longrightarrow>
      POST_A rt ev req = catch_A rt (validated_A rt ev req)) \<and>
   (APP_TOKEN ev = Some secret \<and> secret \<noteq> [] \<longrightarrow>
      (x_app_token req = None \<longrightarrow>
         POST_B rt ev req = (Inr \<lparr>status = 401, headers = headers_B,
            body = JObj [(lit ''error'', JStr (lit ''Unauthorized''))]\<rparr>, [])) \<and>
      (x_app_token req = Some sent \<and> sent \<noteq> secret \<longrightarrow>
         POST_B rt ev req = (Inr \<lparr>status = 401, headers = headers_B,
            body = JObj [(lit ''error'', JStr (lit ''Unauthorized''))]\<rparr>, [])) \<and>
      (x_app_token req = Some sent \<and> sent = secret \<longrightarrow>
         POST_B rt ev req = catch_B rt (validated_B rt ev req))) \<and>
   (APP_TOKEN ev = None \<or> APP_TOKEN ev = Some [] \<longrightarrow>
      POST_B rt ev req = catch_B rt (validated_B rt ev req))"
proof (intro conjI impI)
  assume s: "APP_TOKEN ev = Some secret \<and> trim secret \<noteq> []"
  then have ne: "secret \<noteq> []"
    by (simp add: trim_nonempty)
  {
    assume "x_app_token req = None"
    with s have "auth_A ev req = Some (Inr \<lparr>status = 401, headers = headers_A,
            body = JObj [(lit ''error'', JStr (lit ''Unauthorized''))]\<rparr>)"
      by (auto simp add: auth_A_def orElse_Some_Nil orElse_None trim_Nil json_A_const)
    then show "POST_A rt ev req = (Inr \<lparr>status = 401, headers = headers_A,
            body = JObj [(lit ''error'', JStr (lit ''Unauthorized''))]\<rparr>, [])"
      by (rule POST_A_unauthorized)
  }
  {
    assume "x_app_token req = Some sent \<and> trim sent \<noteq> trim secret"
    with s have "auth_A ev req = Some (Inr \<lparr>status = 401, headers = headers_A,
            body = JObj [(lit ''error'', JStr (lit ''Unauthorized''))]\<rparr>)"
      by (simp add: auth_A_def orElse_Some_Nil json_A_const)
    then show "POST_A rt ev req = (Inr \<lparr>status = 401, headers = headers_A,
            body = JObj [(lit ''error'', JStr (lit ''Unauthorized''))]\<rparr>, [])"
      by (rule POST_A_unauthorized)
  }
  {
    assume "x_app_token req = Some sent \<and> trim sent = trim secret"
    with s have "auth_A ev req = None"
      by (simp add: auth_A_def orElse_Some_Nil)
    then show "POST_A rt ev req = catch_A rt (validated_A rt ev req)"
      by (rule POST_A_authorized)
  }
next
  assume "APP_TOKEN ev = None \<or> (APP_TOKEN ev = Some secret \<and> trim secret = [])"
  then have "auth_A ev req = None"
    by (auto simp add: auth_A_def orElse_Some_Nil orElse_None trim_Nil)
  then show "POST_A rt ev req = catch_A rt (validated_A rt ev req)"
    by (rule POST_A_authorized)
next
  assume s: "APP_TOKEN ev = Some secret \<and> secret \<noteq> []"
  {
    assume "x_app_token req = None"
    with s have "auth_B ev req = Some (Inr \<lparr>status = 401, headers = headers_B,
            body = JObj [(lit ''error'', JStr (lit ''Unauthorized''))]\<rparr>)"
      by (auto simp add: auth_B_def orElse_Some_Nil orElse_None json_B_const)
    then show "POST_B rt ev req = (Inr \<lparr>status = 401, headers = headers_B,
            body = JObj [(lit ''error'', JStr (lit ''Unauthorized''))]\<rparr>, [])"
      by (rule POST_B_unauthorized)
  }
  {
    assume "x_app_token req = Some sent \<and> sent \<noteq> secret"
    with s have "auth_B ev req = Some (Inr \<lparr>status = 401, headers = headers_B,
            body = JObj [(lit ''error'', JStr (lit ''Unauthorized''))]\<rparr>)"
      by (simp add: auth_B_def orElse_Some_Nil json_B_const)
    then show "POST_B rt ev req = (Inr \<lparr>status = 401, headers = headers_B,
            body = JObj [(lit ''error'', JStr (lit ''Unauthorized''))]\<rparr>, [])"
      by (rule POST_B_unauthorized)
  }
  {
    assume "x_app_token req = Some sent \<and> sent = secret"
    with s have "auth_B ev req = None"
      by (simp add: auth_B_def orElse_Some_Nil)
    then show "POST_B rt ev req = catch_B rt (validated_B rt ev req)"
      by (rule POST_B_authorized)
  }
next
  assume "APP_TOKEN ev = None \<or> APP_TOKEN ev = Some []"
  then have "auth_B ev req = None"
    by (auto simp add: auth_B_def orElse_Some_Nil orElse_None)
  then show "POST_B rt ev req = catch_B rt (validated_B rt ev req)"
    by (rule POST_B_authorized)
qed

theorem shared_secret_check_witness:
  "POST_A (demo_runtime None) (demo_env (Some (lit '' s3cret '')) (Some (lit ''key'')))
      (demo_request (Some (lit ''s3cret'')) (JObj [(lit ''text'', JStr (lit ''hola''))])) =
     catch_A (demo_runtime None)
       (validated_A (demo_runtime None) (demo_env (Some (lit '' s3cret '')) (Some (lit ''key'')))
          (demo_request (Some (lit ''s3cret'')) (JObj [(lit ''text'', JStr (lit ''hola''))]))) \<and>
   POST_A (demo_runtime None) (demo_env (Some (lit '' s3cret '')) (Some (lit ''key'')))
      (demo_request (None) (JObj [(lit ''text'', JStr (lit ''hola''))])) =
     (Inr \<lparr>status = 401, headers = headers_A,
            body = JObj [(lit ''error'', JStr (lit ''Unauthorized''))]\<rparr>, []) \<and>
   POST_A (demo_runtime None) (demo_env (Some (lit '' s3cret '')) (Some (lit ''key'')))
      (demo_request (Some (lit ''hola'')) (JObj [(lit ''text'', JStr (lit ''hola''))])) =
     (Inr \<lparr>status = 401, headers = headers_A,
            body = JObj [(lit ''error'', JStr (lit ''Unauthorized''))]\<rparr>, []) \<and>
   POST_A (demo_runtime None) (demo_env (Some (lit '' '')) (Some (lit ''key'')))
      (demo_request (None) (JObj [(lit ''text'', JStr (lit ''hola''))])) =
     catch_A (demo_runtime None)
       (validated_A (demo_runtime None) (demo_env (Some (lit '' '')) (Some (lit ''key'')))
          (demo_request (None) (JObj [(lit ''text'', JStr (lit ''hola''))]))) \<and>
   POST_A (demo_runtime None) (demo_env (None) (Some (lit ''key'')))
      (demo_request (None) (JObj [(lit ''text'', JStr (lit ''hola''))])) =
     catch_A (demo_runtime None)
       (validated_A (demo_runtime None) (demo_env (None) (Some (lit ''key'')))
          (demo_request (None) (JObj [(lit ''text'', JStr (lit ''hola''))]))) \<and>
   POST_B (demo_runtime None) (demo_env (Some (lit ''s3cret'')) (Some (lit ''key'')))
      (demo_request (Some (lit ''s3cret'')) (JObj [(lit ''text'', JStr (lit ''hola''))])) =
     catch_B (demo_runtime None)
       (validated_B (demo_runtime None) (demo_env (Some (lit ''s3cret'')) (Some (lit ''key'')))
          (demo_request (Some (lit ''s3cret'')) (JObj [(lit ''text'', JStr (lit ''hola''))]))) \<and>
   POST_B (demo_runtime None) (demo_env (Some (lit ''s3cret'')) (Some (lit ''key'')))
      (demo_request (None) (JObj [(lit ''text'', JStr (lit ''hola''))])) =
     (Inr \<lparr>status = 401, headers = headers_B,
            body = JObj [(lit ''error'', JStr (lit ''Unauthorized''))]\<rparr>, []) \<and>
   POST_B (demo_runtime None) (demo_env (Some (lit '' s3cret '')) (Some (lit ''key'')))
      (demo_request (Some (lit ''s3cret'')) (JObj [(lit ''text'', JStr (lit ''hola''))])) =
     (Inr \<lparr>status = 401, headers = headers_B,
            body = JObj [(lit ''error'', JStr (lit ''Unauthorized''))]\<rparr>, []) \<and>
   POST_B (demo_runtime None) (demo_env (None) (Some (lit ''key'')))
      (demo_request (None) (JObj [(lit ''text'', JStr (lit ''hola''))])) =
     catch_B (demo_runtime None)
       (validated_B (demo_runtime None) (demo_env (None) (Some (lit ''key'')))
          (demo_request (None) (JObj [(lit ''text'', JStr (lit ''hola''))])))"
proof -
  have blank: "trim (lit '' '') = []"
    by (simp add: trim_def lit_def cu_of_char_def isWhiteSpace_def)
  show ?thesis
    using
    shared_secret_check
      [where ev = "demo_env (Some (lit '' s3cret '')) (Some (lit ''key''))"
         and secret = "lit '' s3cret ''" and rt = "demo_runtime None"
         and req = "demo_request (Some (lit ''s3cret'')) (JObj [(lit ''text'', JStr (lit ''hola''))])"
         and sent = "lit ''s3cret''"]
    shared_secret_check
      [where ev = "demo_env (Some (lit '' s3cret '')) (Some (lit ''key''))"
         and secret = "lit '' s3cret ''" and rt = "demo_runtime None"
         and req = "demo_request (None) (JObj [(lit ''text'', JStr (lit ''hola''))])"
         and sent = "lit ''s3cret''"]
    shared_secret_check
      [where ev = "demo_env (Some (lit '' s3cret '')) (Some (lit ''key''))"
         and secret = "lit '' s3cret ''" and rt = "demo_runtime None"
         and req = "demo_request (Some (lit ''hola'')) (JObj [(lit ''text'', JStr (lit ''hola''))])"
         and sent = "lit ''hola''"]
    shared_secret_check
      [where ev = "demo_env (Some (lit '' '')) (Some (lit ''key''))"
         and secret = "lit '' ''" and rt = "demo_runtime None"
         and req = "demo_request (None) (JObj [(lit ''text'', JStr (lit ''hola''))])"
         and sent = "lit ''s3cret''"]
    shared_secret_check
      [where ev = "demo_env (None) (Some (lit ''key''))"
         and secret = "lit '' ''" and rt = "demo_runtime None"
         and req = "demo_request (None) (JObj [(lit ''text'', JStr (lit ''hola''))])"
         and sent = "lit ''s3cret''"]
    shared_secret_check
      [where ev = "demo_env (Some (lit ''s3cret'')) (Some (lit ''key''))"
         and secret = "lit ''s3cret''" and rt = "demo_runtime None"
         and req = "demo_request (Some (lit ''s3cret'')) (JObj [(lit ''text'', JStr (lit ''hola''))])"
         and sent = "lit ''s3cret''"]
    shared_secret_check
      [where ev = "demo_env (Some (lit ''s3cret'')) (Some (lit ''key''))"
         and secret = "lit ''s3cret''" and rt = "demo_runtime None"
         and req = "demo_request (None) (JObj [(lit ''text'', JStr (lit ''hola''))])"
         and sent = "lit ''s3cret''"]
    shared_secret_check
      [where ev = "demo_env (Some (lit '' s3cret '')) (Some (lit ''key''))"
         and secret = "lit '' s3cret ''" and rt = "demo_runtime None"
         and req = "demo_request (Some (lit ''s3cret'')) (JObj [(lit ''text'', JStr (lit ''hola''))])"
         and sent = "lit ''s3cret''"]
    by (simp add: APP_TOKEN_demo x_app_token_demo trim_s3cret trim_hola blank lit_eq_iff lit_eq_Nil_iff)
qed

text \<open>
  Counterexample to the original wording, in both variants. In variant B the secret \<open>abc\<close>
  followed by a space and the header \<open>abc\<close> are equal once trimmed, and the request is
  answered with 401. In variant A a secret that is a single space is configured and
  non-empty, and a request without the header is not answered with 401: it goes on to
  validation, which here reports the missing text.
\<close>

theorem shared_secret_check_counterexample:
  "trim (lit ''abc'') = trim (lit ''abc '') \<and>
   POST_B (demo_runtime None) (demo_env (Some (lit ''abc '')) (Some (lit ''key'')))
      (demo_request (Some (lit ''abc'')) (JObj [(lit ''text'', JStr (lit ''hola''))])) =
     (Inr \<lparr>status = 401, headers = headers_B,
            body = JObj [(lit ''error'', JStr (lit ''Unauthorized''))]\<rparr>, []) \<and>
   lit '' '' \<noteq> [] \<and>
   POST_A (demo_runtime None) (demo_env (Some (lit '' '')) (Some (lit ''key'')))
      (demo_request (None) (JObj [])) =
     (Inr \<lparr>status = 400, headers = headers_A,
            body = JObj [(lit ''error'', JStr (lit ''Missing text''))]\<rparr>, [])"
proof (intro conjI)
  show "trim (lit ''abc'') = trim (lit ''abc '')"
    by (simp add: trim_def lit_def cu_of_char_def isWhiteSpace_def)
  have "auth_B (demo_env (Some (lit ''abc '')) (Some (lit ''key'')))
          (demo_request (Some (lit ''abc'')) (JObj [(lit ''text'', JStr (lit ''hola''))])) =
        Some (Inr \<lparr>status = 401, headers = headers_B,
            body = JObj [(lit ''error'', JStr (lit ''Unauthorized''))]\<rparr>)"
    by (simp add: auth_B_def APP_TOKEN_demo x_app_token_demo orElse_Some_Nil lit_eq_iff
        lit_eq_Nil_iff json_B_const)
  then show "POST_B (demo_runtime None) (demo_env (Some (lit ''abc '')) (Some (lit ''key'')))
      (demo_request (Some (lit ''abc'')) (JObj [(lit ''text'', JStr (lit ''hola''))])) =
     (Inr \<lparr>status = 401, headers = headers_B,
            body = JObj [(lit ''error'', JStr (lit ''Unauthorized''))]\<rparr>, [])"
    by (rule POST_B_unauthorized)
  show "lit '' '' \<noteq> []"
    by (simp add: lit_eq_Nil_iff)
  have "trim (lit '' '') = []"
    by (simp add: trim_def lit_def cu_of_char_def isWhiteSpace_def)
  then have "auth_A (demo_env (Some (lit '' '')) (Some (lit ''key''))) (demo_request None (JObj []))
             = None"
    by (simp add: auth_A_def APP_TOKEN_demo orElse_Some_Nil)
  moreover have "validate_A (demo_runtime None) (demo_request None (JObj [])) =
      Inr (Inl \<lparr>status = 400, headers = headers_A,
            body = JObj [(lit ''error'', JStr (lit ''Missing text''))]\<rparr>)"
    by (rule validate_A_null) (simp add: safeParseJson_def demo_request_def)
  ultimately show "POST_A (demo_runtime None) (demo_env (Some (lit '' '')) (Some (lit ''key'')))
      (demo_request (None) (JObj [])) =
     (Inr \<lparr>status = 400, headers = headers_A,
            body = JObj [(lit ''error'', JStr (lit ''Missing text''))]\<rparr>, [])"
    by (rule POST_A_rejected)
qed

subsection \<open>An empty generation (C3, C4)\<close>

text \<open>
  Claim C3, as amended. When the one call was answered with a status from 200 to 299 and
  the extractor finds no text, variant A does not answer 200: it answers with status 502
  and \<open>Empty response\<close> (and when printing the provider's \<open>responseId\<close> raises, with the
  catch-all 500). Variant B has no such check: it answers with status 200, the empty
  text and the provider's \<open>id\<close>, or \<open>null\<close>.
\<close>

theorem empty_generation:
  "(map snd (snd (POST_A rt ev req)) = [Some up] \<and> ok up \<and>
    extractTextFromGemini (case up_json up of None \<Rightarrow> JObj [] | Some d \<Rightarrow> d) = [] \<longrightarrow>
      (\<exists>r. fst (POST_A rt ev req) = Inr r \<and> status r \<noteq> 200 \<and>
           (status r = 502 \<or> status r = 500)) \<and>
      (\<forall>rid. response_id_A rt (case up_json up of None \<Rightarrow> JObj [] | Some d \<Rightarrow> d) = Inr rid \<longrightarrow>
         fst (POST_A rt ev req) =
           Inr \<lparr>status = 502, headers = headers_A,
            body = JObj [(lit ''error'', JStr (lit ''Empty response'')),
                         (lit ''response_id'', JStr (rid)),
                         (lit ''details'', (case up_json up of None \<Rightarrow> JObj [] | Some d \<Rightarrow> d))]\<rparr>)) \<and>
   (map snd (snd (POST_B rt ev req)) = [Some up] \<and> ok up \<and>
    extractOutputText (case up_json up of None \<Rightarrow> JObj [] | Some d \<Rightarrow> d) = Inr [] \<longrightarrow>
      fst (POST_B rt ev req) =
        Inr \<lparr>status = 200, headers = headers_B,
            body = JObj [(lit ''text'', JStr []),
                         (lit ''response_id'', coalesce (getProp (case up_json up of None \<Rightarrow> JObj [] | Some d \<Rightarrow> d) (lit ''id'')) JNull)]\<rparr>)"
proof (intro conjI impI allI)
  assume a: "map snd (snd (POST_A rt ev req)) = [Some up] \<and> ok up \<and>
    extractTextFromGemini (case up_json up of None \<Rightarrow> JObj [] | Some d \<Rightarrow> d) = []"
  then have p: "fst (POST_A rt ev req) = fst (catch_A rt (reply_A rt up, []))"
    by (simp add: POST_A_called)
  from a have r: "reply_A rt up =
     (case response_id_A rt (case up_json up of None \<Rightarrow> JObj [] | Some d \<Rightarrow> d) of
        Inl e \<Rightarrow> Inl e
      | Inr rid \<Rightarrow>
          Inr \<lparr>status = 502, headers = headers_A,
            body = JObj [(lit ''error'', JStr (lit ''Empty response'')),
                         (lit ''response_id'', JStr (rid)),
                         (lit ''details'', (case up_json up of None \<Rightarrow> JObj [] | Some d \<Rightarrow> d))]\<rparr>)"
    by (simp add: reply_A_empty)
  show "\<exists>r. fst (POST_A rt ev req) = Inr r \<and> status r \<noteq> 200 \<and>
           (status r = 502 \<or> status r = 500)"
    unfolding p r
    by (cases "response_id_A rt (case up_json up of None \<Rightarrow> JObj [] | Some d \<Rightarrow> d)") (simp_all add: catch_A_Inl catch_A_Inr)
  fix rid
  assume "response_id_A rt (case up_json up of None \<Rightarrow> JObj [] | Some d \<Rightarrow> d) = Inr rid"
  then show "fst (POST_A rt ev req) =
           Inr \<lparr>status = 502, headers = headers_A,
            body = JObj [(lit ''error'', JStr (lit ''Empty response'')),
                         (lit ''response_id'', JStr (rid)),
                         (lit ''details'', (case up_json up of None \<Rightarrow> JObj [] | Some d \<Rightarrow> d))]\<rparr>"
    unfolding p r by (simp add: catch_A_Inr)
next
  assume b: "map snd (snd (POST_B rt ev req)) = [Some up] \<and> ok up \<and>
    extractOutputText (case up_json up of None \<Rightarrow> JObj [] | Some d \<Rightarrow> d) = Inr []"
  then have "fst (POST_B rt ev req) = fst (catch_B rt (reply_B up, []))"
    by (simp add: POST_B_called)
  with b show "fst (POST_B rt ev req) =
        Inr \<lparr>status = 200, headers = headers_B,
            body = JObj [(lit ''text'', JStr []),
                         (lit ''response_id'', coalesce (getProp (case up_json up of None \<Rightarrow> JObj [] | Some d \<Rightarrow> d) (lit ''id'')) JNull)]\<rparr>"
    by (simp add: reply_B_ok catch_B_Inr)
qed

theorem empty_generation_witness:
  "fst (POST_A (demo_runtime (Some \<lparr>up_status = 200, up_json = Some (JObj [])\<rparr>))
          (demo_env None (Some (lit ''key'')))
          (demo_request None (JObj [(lit ''text'', JStr (lit ''hola''))]))) =
     Inr \<lparr>status = 502, headers = headers_A,
            body = JObj [(lit ''error'', JStr (lit ''Empty response'')),
                         (lit ''response_id'', JStr (lit ''123e4567-e89b-12d3-a456-426614174000'')),
                         (lit ''details'', JObj [])]\<rparr> \<and>
   fst (POST_B (demo_runtime (Some \<lparr>up_status = 200, up_json = Some (JObj [])\<rparr>))
          (demo_env None (Some (lit ''key'')))
          (demo_request None (JObj [(lit ''text'', JStr (lit ''hola''))]))) =
     Inr \<lparr>status = 200, headers = headers_B,
            body = JObj [(lit ''text'', JStr []), (lit ''response_id'', JNull)]\<rparr>"
  using empty_generation
    [where rt = "demo_runtime (Some \<lparr>up_status = 200, up_json = Some (JObj [])\<rparr>)"
       and ev = "demo_env None (Some (lit ''key''))"
       and req = "demo_request None (JObj [(lit ''text'', JStr (lit ''hola''))])"
       and up = "\<lparr>up_status = 200, up_json = Some (JObj [])\<rparr>"]
  by (simp add: answers_A_demo_hola answers_B_demo_hola ok_200 extract_A_empty_object
      extract_B_empty_object response_id_A_demo_empty_object coalesce_def nullish_def)

text \<open>
  Counterexample to the original wording, in variant B: the provider answers 200 with
  the empty object, the extractor finds no text, and the handler answers 200 with the
  empty text.
\<close>

theorem empty_generation_counterexample:
  "ok \<lparr>up_status = 200, up_json = Some (JObj [])\<rparr> \<and>
   extractOutputText (JObj []) = Inr [] \<and>
   fst (POST_B (demo_runtime (Some \<lparr>up_status = 200, up_json = Some (JObj [])\<rparr>))
          (demo_env None (Some (lit ''key'')))
          (demo_request None (JObj [(lit ''text'', JStr (lit ''hola''))]))) =
     Inr \<lparr>status = 200, headers = headers_B,
            body = JObj [(lit ''text'', JStr []), (lit ''response_id'', JNull)]\<rparr>"
proof -
  let ?up = "\<lparr>up_status = 200, up_json = Some (JObj [])\<rparr>"
  have "fst (POST_B (demo_runtime (Some ?up)) (demo_env None (Some (lit ''key'')))
               (demo_request None (JObj [(lit ''text'', JStr (lit ''hola''))]))) =
        fst (catch_B (demo_runtime (Some ?up)) (reply_B ?up, []))"
    by (rule POST_B_called) (rule answers_B_demo_hola)
  moreover have "reply_B ?up =
      Inr \<lparr>status = 200, headers = headers_B,
            body = JObj [(lit ''text'', JStr []), (lit ''response_id'', JNull)]\<rparr>"
    by (simp add: reply_B_ok ok_200 extract_B_empty_object coalesce_def nullish_def)
  ultimately show ?thesis
    by (simp add: catch_B_Inr ok_200 extract_B_empty_object)
qed

text \<open>
  Claim C4, as amended. In variant A, when the one call was answered with a status from
  200 to 299, the extractor finds no text and the provider's \<open>responseId\<close> prints as a
  string without raising, the handler answers with status 502 and \<open>Empty response\<close>,
  with \<open>details\<close> equal to the provider's body as parsed (the empty object when it did
  not parse), and with a \<open>response_id\<close> that is a non-empty string: what \<open>responseId\<close>
  prints as when it is truthy and prints as something, otherwise the random UUID (which
  the platform never gives empty) or, without \<open>randomUUID\<close>, \<open>r_\<close> and the time.
\<close>

theorem empty_response_502:
  assumes "map snd (snd (POST_A rt ev req)) = [Some up]"
    and "ok up"
    and "extractTextFromGemini (case up_json up of None \<Rightarrow> JObj [] | Some d \<Rightarrow> d) = []"
    and "ToString (getProp (case up_json up of None \<Rightarrow> JObj [] | Some d \<Rightarrow> d) (lit ''responseId''))
           = Inr printed"
    and "randomUUID rt \<noteq> Some []"
  shows "\<exists>rid. rid \<noteq> [] \<and>
           rid = (if truthy (getProp (case up_json up of None \<Rightarrow> JObj [] | Some d \<Rightarrow> d)
                               (lit ''responseId'')) \<and> printed \<noteq> []
                  then printed
                  else (case randomUUID rt of
                          Some u \<Rightarrow> u
                        | None \<Rightarrow> lit ''r_'' @ decimal (Date_now rt))) \<and>
           fst (POST_A rt ev req) =
             Inr \<lparr>status = 502, headers = headers_A,
            body = JObj [(lit ''error'', JStr (lit ''Empty response'')),
                         (lit ''response_id'', JStr (rid)),
                         (lit ''details'', (case up_json up of None \<Rightarrow> JObj [] | Some d \<Rightarrow> d))]\<rparr>"
proof -
  let ?data = "(case up_json up of None \<Rightarrow> JObj [] | Some d \<Rightarrow> d)"
  let ?fresh = "case randomUUID rt of Some u \<Rightarrow> u | None \<Rightarrow> lit ''r_'' @ decimal (Date_now rt)"
  let ?rid = "if truthy (getProp ?data (lit ''responseId'')) \<and> printed \<noteq> [] then printed else ?fresh"
  have id: "response_id_A rt ?data = Inr ?rid"
    using assms(4) by (rule response_id_A_printed)
  have "?fresh \<noteq> []"
    using assms(5) by (rule fresh_nonempty)
  then have ne: "?rid \<noteq> []"
    by simp
  have "fst (POST_A rt ev req) = fst (catch_A rt (reply_A rt up, []))"
    using assms(1) by (rule POST_A_called)
  also have "reply_A rt up =
      Inr \<lparr>status = 502, headers = headers_A,
            body = JObj [(lit ''error'', JStr (lit ''Empty response'')),
                         (lit ''response_id'', JStr (?rid)),
                         (lit ''details'', ?data)]\<rparr>"
    using assms(2,3) id by (simp add: reply_A_empty)
  finally have "fst (POST_A rt ev req) =
      Inr \<lparr>status = 502, headers = headers_A,
            body = JObj [(lit ''error'', JStr (lit ''Empty response'')),
                         (lit ''response_id'', JStr (?rid)),
                         (lit ''details'', ?data)]\<rparr>"
    by (simp add: catch_A_Inr)
  with ne show ?thesis
    by blast
qed

theorem empty_response_502_witness:
  "fst (POST_A (demo_runtime (Some \<lparr>up_status = 200, up_json = Some (JObj [])\<rparr>))
          (demo_env None (Some (lit ''key'')))
          (demo_request None (JObj [(lit ''text'', JStr (lit ''hola''))]))) =
     Inr \<lparr>status = 502, headers = headers_A,
            body = JObj [(lit ''error'', JStr (lit ''Empty response'')),
                         (lit ''response_id'', JStr (lit ''123e4567-e89b-12d3-a456-426614174000'')),
                         (lit ''details'', JObj [])]\<rparr> \<and>
   fst (POST_A (demo_runtime (Some \<lparr>up_status = 200, up_json = Some (JObj [(lit ''responseId'', JStr (lit ''resp-1''))])\<rparr>))
          (demo_env None (Some (lit ''key'')))
          (demo_request None (JObj [(lit ''text'', JStr (lit ''hola''))]))) =
     Inr \<lparr>status = 502, headers = headers_A,
            body = JObj [(lit ''error'', JStr (lit ''Empty response'')),
                         (lit ''response_id'', JStr (lit ''resp-1'')),
                         (lit ''details'', JObj [(lit ''responseId'', JStr (lit ''resp-1''))])]\<rparr>"
proof -
  have e: "extractTextFromGemini (JObj [(lit ''responseId'', JStr (lit ''resp-1''))]) = []"
    by (simp add: extractTextFromGemini_def lit_eq_iff)
  show ?thesis
    using
      empty_response_502
        [where rt = "demo_runtime (Some \<lparr>up_status = 200, up_json = Some (JObj [])\<rparr>)"
           and ev = "demo_env None (Some (lit ''key''))"
           and req = "demo_request None (JObj [(lit ''text'', JStr (lit ''hola''))])"
           and up = "\<lparr>up_status = 200, up_json = Some (JObj [])\<rparr>"
           and printed = "lit ''undefined''"]
      empty_response_502
        [where rt = "demo_runtime (Some \<lparr>up_status = 200, up_json = Some (JObj [(lit ''responseId'', JStr (lit ''resp-1''))])\<rparr>)"
           and ev = "demo_env None (Some (lit ''key''))"
           and req = "demo_request None (JObj [(lit ''text'', JStr (lit ''hola''))])"
           and up = "\<lparr>up_status = 200, up_json = Some (JObj [(lit ''responseId'', JStr (lit ''resp-1''))])\<rparr>"
           and printed = "lit ''resp-1''"]
    by (simp add: answers_A_demo_hola ok_200 extract_A_empty_object e randomUUID_demo
        lit_eq_Nil_iff)
qed

text \<open>
  Counterexample to the original wording: the provider answers 200 with a body whose
  \<open>responseId\<close> is an object that has a key \<open>toString\<close>. The extractor finds no text,
  \<open>String(data.responseId)\<close> raises, and the handler answers with the catch-all 500.
\<close>

theorem empty_response_502_counterexample:
  "ok \<lparr>up_status = 200, up_json = Some (JObj [(lit ''responseId'', JObj [(lit ''toString'', JNum (lit ''1''))])])\<rparr> \<and>
   extractTextFromGemini (JObj [(lit ''responseId'', JObj [(lit ''toString'', JNum (lit ''1''))])]) = [] \<and>
   fst (POST_A (demo_runtime (Some \<lparr>up_status = 200, up_json = Some (JObj [(lit ''responseId'', JObj [(lit ''toString'', JNum (lit ''1''))])])\<rparr>))
          (demo_env None (Some (lit ''key'')))
          (demo_request None (JObj [(lit ''text'', JStr (lit ''hola''))]))) =
     Inr \<lparr>status = 500, headers = headers_A,
            body = JObj [(lit ''error'', JStr (lit ''Server error'')),
                         (lit ''details'', JStr (lit ''failed''))]\<rparr>"
proof -
  let ?data = "JObj [(lit ''responseId'', JObj [(lit ''toString'', JNum (lit ''1''))])]"
  let ?up = "\<lparr>up_status = 200, up_json = Some ?data\<rparr>"
  have e: "extractTextFromGemini ?data = []"
    by (simp add: extractTextFromGemini_def lit_eq_iff)
  have "response_id_A (demo_runtime (Some ?up)) ?data = Inl TypeError"
    by (simp add: response_id_A_def lit_eq_iff)
  then have "reply_A (demo_runtime (Some ?up)) ?up = Inl TypeError"
    using e by (simp add: reply_A_empty ok_200)
  moreover have "fst (POST_A (demo_runtime (Some ?up)) (demo_env None (Some (lit ''key'')))
               (demo_request None (JObj [(lit ''text'', JStr (lit ''hola''))]))) =
        fst (catch_A (demo_runtime (Some ?up)) (reply_A (demo_runtime (Some ?up)) ?up, []))"
    by (rule POST_A_called) (rule answers_A_demo_hola)
  ultimately have "fst (POST_A (demo_runtime (Some ?up)) (demo_env None (Some (lit ''key'')))
               (demo_request None (JObj [(lit ''text'', JStr (lit ''hola''))]))) =
        Inr \<lparr>status = 500, headers = headers_A,
            body = JObj [(lit ''error'', JStr (lit ''Server error'')),
                         (lit ''details'', JStr (lit ''failed''))]\<rparr>"
    by (simp add: catch_A_Inl errorText_demo)
  with e show ?thesis
    by (simp add: ok_200)
qed

subsection \<open>A provider error (C5)\<close>

text \<open>
  Claim C5, as amended. When the one call a handler made was answered with a status
  outside 200 to 299, the handler never raises. For a status from 300 to 599 other than
  304 it answers with that status, an \<open>error\<close> naming the provider, the status again in
  the body and \<open>details\<close> equal to the provider's JSON body as parsed, or to the empty
  object when the body did not parse. A status that the response constructor refuses
  (304, which admits no body, or one outside 200 to 599) makes \<open>json\<close> raise inside the
  \<open>try\<close> block, and the handler answers with the catch-all 500 and \<open>Server error\<close>.
\<close>

theorem upstream_error_passes_through:
  "(map snd (snd (POST_A rt ev req)) = [Some up] \<and> \<not> ok up \<longrightarrow>
      (200 \<le> up_status up \<and> up_status up \<le> 599 \<and> up_status up \<noteq> 304 \<longrightarrow>
         fst (POST_A rt ev req) =
           Inr \<lparr>status = up_status up, headers = headers_A,
            body = JObj [(lit ''error'', JStr (lit ''Gemini error'')),
                         (lit ''status'', JNum (decimal (up_status up))),
                         (lit ''details'', (case up_json up of None \<Rightarrow> JObj [] | Some d \<Rightarrow> d))]\<rparr>) \<and>
      (up_status up < 200 \<or> 599 < up_status up \<longrightarrow>
         fst (POST_A rt ev req) =
           Inr \<lparr>status = 500, headers = headers_A,
            body = JObj [(lit ''error'', JStr (lit ''Server error'')),
                         (lit ''details'', JStr (errorText rt RangeError))]\<rparr>) \<and>
      (up_status up = 304 \<longrightarrow>
         fst (POST_A rt ev req) =
           Inr \<lparr>status = 500, headers = headers_A,
            body = JObj [(lit ''error'', JStr (lit ''Server error'')),
                         (lit ''details'', JStr (errorText rt TypeError))]\<rparr>)) \<and>
   (map snd (snd (POST_B rt ev req)) = [Some up] \<and> \<not> ok up \<longrightarrow>
      (200 \<le> up_status up \<and> up_status up \<le> 599 \<and> up_status up \<noteq> 304 \<longrightarrow>
         fst (POST_B rt ev req) =
           Inr \<lparr>status = up_status up, headers = headers_B,
            body = JObj [(lit ''error'', JStr (lit ''OpenAI error'')),
                         (lit ''status'', JNum (decimal (up_status up))),
                         (lit ''details'', (case up_json up of None \<Rightarrow> JObj [] | Some d \<Rightarrow> d))]\<rparr>) \<and>
      (up_status up < 200 \<or> 599 < up_status up \<longrightarrow>
         fst (POST_B rt ev req) =
           Inr \<lparr>status = 500, headers = headers_B,
            body = JObj [(lit ''error'', JStr (lit ''Server error'')),
                         (lit ''details'', JStr (errorText rt RangeError))]\<rparr>) \<and>
      (up_status up = 304 \<longrightarrow>
         fst (POST_B rt ev req) =
           Inr \<lparr>status = 500, headers = headers_B,
            body = JObj [(lit ''error'', JStr (lit ''Server error'')),
                         (lit ''details'', JStr (errorText rt TypeError))]\<rparr>))"
proof (intro conjI impI)
  assume a: "map snd (snd (POST_A rt ev req)) = [Some up] \<and> \<not> ok up"
  then have pA: "fst (POST_A rt ev req) = fst (catch_A rt (reply_A rt up, []))"
    by (simp add: POST_A_called)
  from a have badA: "up_status up \<noteq> 204" "up_status up \<noteq> 205"
    by (auto simp add: ok_def)
  from a have rA: "reply_A rt up =
     json_A (JObj [(lit ''error'', JStr (lit ''Gemini error'')),
                   (lit ''status'', JNum (decimal (up_status up))),
                   (lit ''details'', (case up_json up of None \<Rightarrow> JObj [] | Some d \<Rightarrow> d))])
            (up_status up)"
    by (simp add: reply_A_error)
  {
    assume "200 \<le> up_status up \<and> up_status up \<le> 599 \<and> up_status up \<noteq> 304"
    then show "fst (POST_A rt ev req) =
           Inr \<lparr>status = up_status up, headers = headers_A,
            body = JObj [(lit ''error'', JStr (lit ''Gemini error'')),
                         (lit ''status'', JNum (decimal (up_status up))),
                         (lit ''details'', (case up_json up of None \<Rightarrow> JObj [] | Some d \<Rightarrow> d))]\<rparr>"
      unfolding pA rA using badA by (simp add: json_A_accepted catch_A_Inr)
  }
  {
    assume "up_status up < 200 \<or> 599 < up_status up"
    then show "fst (POST_A rt ev req) =
           Inr \<lparr>status = 500, headers = headers_A,
            body = JObj [(lit ''error'', JStr (lit ''Server error'')),
                         (lit ''details'', JStr (errorText rt RangeError))]\<rparr>"
      unfolding pA rA by (simp add: json_A_out_of_range catch_A_Inl)
  }
  {
    assume "up_status up = 304"
    then show "fst (POST_A rt ev req) =
           Inr \<lparr>status = 500, headers = headers_A,
            body = JObj [(lit ''error'', JStr (lit ''Server error'')),
                         (lit ''details'', JStr (errorText rt TypeError))]\<rparr>"
      unfolding pA rA by (simp add: json_A_304 catch_A_Inl)
  }
next
  assume b: "map snd (snd (POST_B rt ev req)) = [Some up] \<and> \<not> ok up"
  then have pB: "fst (POST_B rt ev req) = fst (catch_B rt (reply_B up, []))"
    by (simp add: POST_B_called)
  from b have badB: "up_status up \<noteq> 204" "up_status up \<noteq> 205"
    by (auto simp add: ok_def)
  from b have rB: "reply_B up =
     json_B (JObj [(lit ''error'', JStr (lit ''OpenAI error'')),
                   (lit ''status'', JNum (decimal (up_status up))),
                   (lit ''details'', (case up_json up of None \<Rightarrow> JObj [] | Some d \<Rightarrow> d))])
            (up_status up)"
    by (simp add: reply_B_error)
  {
    assume "200 \<le> up_status up \<and> up_status up \<le> 599 \<and> up_status up \<noteq> 304"
    then show "fst (POST_B rt ev req) =
           Inr \<lparr>status = up_status up, headers = headers_B,
            body = JObj [(lit ''error'', JStr (lit ''OpenAI error'')),
                         (lit ''status'', JNum (decimal (up_status up))),
                         (lit ''details'', (case up_json up of None \<Rightarrow> JObj [] | Some d \<Rightarrow> d))]\<rparr>"
      unfolding pB rB using badB by (simp add: json_B_accepted catch_B_Inr)
  }
  {
    assume "up_status up < 200 \<or> 599 < up_status up"
    then show "fst (POST_B rt ev req) =
           Inr \<lparr>status = 500, headers = headers_B,
            body = JObj [(lit ''error'', JStr (lit ''Server error'')),
                         (lit ''details'', JStr (errorText rt RangeError))]\<rparr>"
      unfolding pB rB by (simp add: json_B_out_of_range catch_B_Inl)
  }
  {
    assume "up_status up = 304"
    then show "fst (POST_B rt ev req) =
           Inr \<lparr>status = 500, headers = headers_B,
            body = JObj [(lit ''error'', JStr (lit ''Server error'')),
                         (lit ''details'', JStr (errorText rt TypeError))]\<rparr>"
      unfolding pB rB by (simp add: json_B_304 catch_B_Inl)
  }
qed

theorem upstream_error_passes_through_witness:
  "fst (POST_A (demo_runtime (Some \<lparr>up_status = 429, up_json = Some (JObj [(lit ''message'', JStr (lit ''quota''))])\<rparr>))
          (demo_env None (Some (lit ''key'')))
          (demo_request None (JObj [(lit ''text'', JStr (lit ''hola''))]))) =
     Inr \<lparr>status = 429, headers = headers_A,
            body = JObj [(lit ''error'', JStr (lit ''Gemini error'')),
                         (lit ''status'', JNum (lit ''429'')),
                         (lit ''details'', JObj [(lit ''message'', JStr (lit ''quota''))])]\<rparr> \<and>
   fst (POST_B (demo_runtime (Some \<lparr>up_status = 429, up_json = Some (JObj [(lit ''message'', JStr (lit ''quota''))])\<rparr>))
          (demo_env None (Some (lit ''key'')))
          (demo_request None (JObj [(lit ''text'', JStr (lit ''hola''))]))) =
     Inr \<lparr>status = 429, headers = headers_B,
            body = JObj [(lit ''error'', JStr (lit ''OpenAI error'')),
                         (lit ''status'', JNum (lit ''429'')),
                         (lit ''details'', JObj [(lit ''message'', JStr (lit ''quota''))])]\<rparr> \<and>
   fst (POST_A (demo_runtime (Some \<lparr>up_status = 999, up_json = Some (JObj [])\<rparr>))
          (demo_env None (Some (lit ''key'')))
          (demo_request None (JObj [(lit ''text'', JStr (lit ''hola''))]))) =
     Inr \<lparr>status = 500, headers = headers_A,
            body = JObj [(lit ''error'', JStr (lit ''Server error'')),
                         (lit ''details'', JStr (lit ''failed''))]\<rparr> \<and>
   fst (POST_B (demo_runtime (Some \<lparr>up_status = 999, up_json = Some (JObj [])\<rparr>))
          (demo_env None (Some (lit ''key'')))
          (demo_request None (JObj [(lit ''text'', JStr (lit ''hola''))]))) =
     Inr \<lparr>status = 500, headers = headers_B,
            body = JObj [(lit ''error'', JStr (lit ''Server error'')),
                         (lit ''details'', JStr (lit ''failed''))]\<rparr>"
proof -
  have bad: "\<not> ok \<lparr>up_status = 429, up_json = Some (JObj [(lit ''message'', JStr (lit ''quota''))])\<rparr>" "\<not> ok \<lparr>up_status = 999, up_json = Some (JObj [])\<rparr>"
    by (simp_all add: ok_def)
  show ?thesis
    using bad
      upstream_error_passes_through
        [where rt = "demo_runtime (Some \<lparr>up_status = 429, up_json = Some (JObj [(lit ''message'', JStr (lit ''quota''))])\<rparr>)"
           and ev = "demo_env None (Some (lit ''key''))"
           and req = "demo_request None (JObj [(lit ''text'', JStr (lit ''hola''))])"
           and up = "\<lparr>up_status = 429, up_json = Some (JObj [(lit ''message'', JStr (lit ''quota''))])\<rparr>"]
      upstream_error_passes_through
        [where rt = "demo_runtime (Some \<lparr>up_status = 999, up_json = Some (JObj [])\<rparr>)"
           and ev = "demo_env None (Some (lit ''key''))"
           and req = "demo_request None (JObj [(lit ''text'', JStr (lit ''hola''))])"
           and up = "\<lparr>up_status = 999, up_json = Some (JObj [])\<rparr>"]
    by (simp add: answers_A_demo_hola answers_B_demo_hola decimal_429 errorText_demo)
qed

text \<open>
  Counterexample to the original wording, in both variants: the provider answers 304,
  which carries no body. The handler calls \<open>json\<close> with the status 304 and a body, the
  constructor raises, and the handler answers 500 instead of 304.
\<close>

theorem upstream_error_passes_through_counterexample:
  "\<not> ok \<lparr>up_status = 304, up_json = None\<rparr> \<and>
   fst (POST_A (demo_runtime (Some \<lparr>up_status = 304, up_json = None\<rparr>))
          (demo_env None (Some (lit ''key'')))
          (demo_request None (JObj [(lit ''text'', JStr (lit ''hola''))]))) =
     Inr \<lparr>status = 500, headers = headers_A,
            body = JObj [(lit ''error'', JStr (lit ''Server error'')),
                         (lit ''details'', JStr (lit ''failed''))]\<rparr> \<and>
   fst (POST_B (demo_runtime (Some \<lparr>up_status = 304, up_json = None\<rparr>))
          (demo_env None (Some (lit ''key'')))
          (demo_request None (JObj [(lit ''text'', JStr (lit ''hola''))]))) =
     Inr \<lparr>status = 500, headers = headers_B,
            body = JObj [(lit ''error'', JStr (lit ''Server error'')),
                         (lit ''details'', JStr (lit ''failed''))]\<rparr>"
proof (intro conjI)
  let ?up = "\<lparr>up_status = 304, up_json = None\<rparr>"
  show bad: "\<not> ok ?up"
    by (simp add: ok_def)
  have "fst (POST_A (demo_runtime (Some ?up)) (demo_env None (Some (lit ''key'')))
               (demo_request None (JObj [(lit ''text'', JStr (lit ''hola''))]))) =
        fst (catch_A (demo_runtime (Some ?up)) (reply_A (demo_runtime (Some ?up)) ?up, []))"
    by (rule POST_A_called) (rule answers_A_demo_hola)
  moreover have "reply_A (demo_runtime (Some ?up)) ?up = Inl TypeError"
    using bad by (simp add: reply_A_error json_A_304)
  ultimately show "fst (POST_A (demo_runtime (Some \<lparr>up_status = 304, up_json = None\<rparr>))
          (demo_env None (Some (lit ''key'')))
          (demo_request None (JObj [(lit ''text'', JStr (lit ''hola''))]))) =
     Inr \<lparr>status = 500, headers = headers_A,
            body = JObj [(lit ''error'', JStr (lit ''Server error'')),
                         (lit ''details'', JStr (lit ''failed''))]\<rparr>"
    by (simp add: catch_A_Inl errorText_demo)
  have "fst (POST_B (demo_runtime (Some ?up)) (demo_env None (Some (lit ''key'')))
               (demo_request None (JObj [(lit ''text'', JStr (lit ''hola''))]))) =
        fst (catch_B (demo_runtime (Some ?up)) (reply_B ?up, []))"
    by (rule POST_B_called) (rule answers_B_demo_hola)
  moreover have "reply_B ?up = Inl TypeError"
    using bad by (simp add: reply_B_error json_B_304)
  ultimately show "fst (POST_B (demo_runtime (Some \<lparr>up_status = 304, up_json = None\<rparr>))
          (demo_env None (Some (lit ''key'')))
          (demo_request None (JObj [(lit ''text'', JStr (lit ''hola''))]))) =
     Inr \<lparr>status = 500, headers = headers_B,
            body = JObj [(lit ''error'', JStr (lit ''Server error'')),
                         (lit ''details'', JStr (lit ''failed''))]\<rparr>"
    by (simp add: catch_B_Inl errorText_demo)
qed

subsection \<open>A missing credential (C6)\<close>

text \<open>
  Claim C6. When a request has passed authorization and validation and the provider's
  credential is absent from the environment, the handler answers with status 500 and an
  \<open>error\<close> that names the credential, and it has made no outbound call.
\<close>

theorem missing_credential_is_reported_without_a_call:
  "(auth_A ev req = None \<and> validate_A rt req = Inr (Inr v) \<and> GEMINI_API_KEY ev = None \<longrightarrow>
      POST_A rt ev req = (Inr \<lparr>status = 500, headers = headers_A,
            body = JObj [(lit ''error'', JStr (lit ''Server missing GEMINI_API_KEY''))]\<rparr>, [])) \<and>
   (auth_B ev req = None \<and> validate_B req = Inr (Inr w) \<and> OPENAI_API_KEY ev = None \<longrightarrow>
      POST_B rt ev req = (Inr \<lparr>status = 500, headers = headers_B,
            body = JObj [(lit ''error'', JStr (lit ''Server missing OPENAI_API_KEY''))]\<rparr>, []))"
proof (intro conjI impI)
  assume a: "auth_A ev req = None \<and> validate_A rt req = Inr (Inr v) \<and> GEMINI_API_KEY ev = None"
  obtain lang tx history where v: "v = (lang, tx, history)"
    by (cases v) auto
  have "generate_A rt ev lang tx history = (Inr \<lparr>status = 500, headers = headers_A,
            body = JObj [(lit ''error'', JStr (lit ''Server missing GEMINI_API_KEY''))]\<rparr>, [])"
    using a by (simp add: generate_A_def orElse_def trim_Nil json_A_const)
  with a v show "POST_A rt ev req = (Inr \<lparr>status = 500, headers = headers_A,
            body = JObj [(lit ''error'', JStr (lit ''Server missing GEMINI_API_KEY''))]\<rparr>, [])"
    by (simp add: POST_A_authorized validated_A_def catch_A_Inr)
next
  assume b: "auth_B ev req = None \<and> validate_B req = Inr (Inr w) \<and> OPENAI_API_KEY ev = None"
  obtain lang tx p where w: "w = (lang, tx, p)"
    by (cases w) auto
  have "generate_B rt ev lang tx p = (Inr \<lparr>status = 500, headers = headers_B,
            body = JObj [(lit ''error'', JStr (lit ''Server missing OPENAI_API_KEY''))]\<rparr>, [])"
    using b by (simp add: generate_B_def json_B_const)
  with b w show "POST_B rt ev req = (Inr \<lparr>status = 500, headers = headers_B,
            body = JObj [(lit ''error'', JStr (lit ''Server missing OPENAI_API_KEY''))]\<rparr>, [])"
    by (simp add: POST_B_authorized validated_B_def catch_B_Inr)
qed

theorem missing_credential_is_reported_without_a_call_witness:
  "POST_A (demo_runtime None) (demo_env None None)
      (demo_request None (JObj [(lit ''text'', JStr (lit ''hola''))])) =
     (Inr \<lparr>status = 500, headers = headers_A,
            body = JObj [(lit ''error'', JStr (lit ''Server missing GEMINI_API_KEY''))]\<rparr>, []) \<and>
   POST_B (demo_runtime None) (demo_env None None)
      (demo_request None (JObj [(lit ''text'', JStr (lit ''hola''))])) =
     (Inr \<lparr>status = 500, headers = headers_B,
            body = JObj [(lit ''error'', JStr (lit ''Server missing OPENAI_API_KEY''))]\<rparr>, [])"
proof -
  have "GEMINI_API_KEY (demo_env None None) = None" and "OPENAI_API_KEY (demo_env None None) = None"
    by (simp_all add: demo_env_def)
  then show ?thesis
    using missing_credential_is_reported_without_a_call
      [of "demo_env None None" "demo_request None (JObj [(lit ''text'', JStr (lit ''hola''))])"
          "demo_runtime None" "(lit ''es'', lit ''hola'', JUndefined)"
          "(lit ''es'', lit ''hola'', None)"]
    by (simp add: auth_A_no_secret auth_B_no_secret validate_A_demo_hola validate_B_demo_hola)
qed

subsection \<open>The length of the text (C7)\<close>

text \<open>
  Claim C7, as amended. Once authorization has passed, and provided the fields read
  before the check convert to strings without raising (\<open>lang\<close> and \<open>text\<close>, and in
  variant B a truthy \<open>previous_response_id\<close>), a text that is longer than 1500 code
  units after trimming is answered with status 400 and \<open>Text too long\<close>, with no
  outbound call, and a trimmed text of 1 to 1500 code units passes validation.
\<close>

theorem text_length_is_checked:
  "(auth_A ev req = None \<and>
    toString_call (coalesce (getProp (safeParseJson rt req) (lit ''lang'')) (JStr (lit ''es'')))
      = Inr ls \<and>
    toString_call (coalesce (getProp (safeParseJson rt req) (lit ''text'')) (JStr [])) = Inr ts \<longrightarrow>
      (1500 < length (trim ts) \<longrightarrow>
         POST_A rt ev req = (Inr \<lparr>status = 400, headers = headers_A,
            body = JObj [(lit ''error'', JStr (lit ''Text too long''))]\<rparr>, [])) \<and>
      (1 \<le> length (trim ts) \<and> length (trim ts) \<le> 1500 \<longrightarrow>
         validate_A rt req =
           Inr (Inr (normalizeLang rt ls, trim ts,
                     getProp (safeParseJson rt req) (lit ''history''))))) \<and>
   (auth_B ev req = None \<and>
    toString_call (coalesce (getProp (case req_json req of None \<Rightarrow> JNull | Some v \<Rightarrow> v)
                               (lit ''lang'')) (JStr (lit ''es''))) = Inr ls \<and>
    toString_call (coalesce (getProp (case req_json req of None \<Rightarrow> JNull | Some v \<Rightarrow> v)
                               (lit ''text'')) (JStr [])) = Inr ts \<and>
    (if truthy (getProp (case req_json req of None \<Rightarrow> JNull | Some v \<Rightarrow> v)
                  (lit ''previous_response_id''))
     then map_sum id Some
            (toString_call (getProp (case req_json req of None \<Rightarrow> JNull | Some v \<Rightarrow> v)
                              (lit ''previous_response_id'')))
     else Inr None) = Inr prev \<longrightarrow>
      (1500 < length (trim ts) \<longrightarrow>
         POST_B rt ev req = (Inr \<lparr>status = 400, headers = headers_B,
            body = JObj [(lit ''error'', JStr (lit ''Text too long''))]\<rparr>, [])) \<and>
      (1 \<le> length (trim ts) \<and> length (trim ts) \<le> 1500 \<longrightarrow>
         validate_B req = Inr (Inr (ls, trim ts, prev))))"
proof (intro conjI impI)
  assume a: "auth_A ev req = None \<and>
    toString_call (coalesce (getProp (safeParseJson rt req) (lit ''lang'')) (JStr (lit ''es'')))
      = Inr ls \<and>
    toString_call (coalesce (getProp (safeParseJson rt req) (lit ''text'')) (JStr [])) = Inr ts"
  then have v: "validate_A rt req =
     (if trim ts = [] then
        Inr (Inl \<lparr>status = 400, headers = headers_A,
            body = JObj [(lit ''error'', JStr (lit ''Missing text''))]\<rparr>)
      else if 1500 < length (trim ts) then
        Inr (Inl \<lparr>status = 400, headers = headers_A,
            body = JObj [(lit ''error'', JStr (lit ''Text too long''))]\<rparr>)
      else Inr (Inr (normalizeLang rt ls, trim ts,
                     getProp (safeParseJson rt req) (lit ''history''))))"
    by (simp add: validate_A_text)
  {
    assume "1500 < length (trim ts)"
    with v have "validate_A rt req = Inr (Inl \<lparr>status = 400, headers = headers_A,
            body = JObj [(lit ''error'', JStr (lit ''Text too long''))]\<rparr>)"
      by auto
    with a show "POST_A rt ev req = (Inr \<lparr>status = 400, headers = headers_A,
            body = JObj [(lit ''error'', JStr (lit ''Text too long''))]\<rparr>, [])"
      by (simp add: POST_A_rejected)
  }
  {
    assume "1 \<le> length (trim ts) \<and> length (trim ts) \<le> 1500"
    with v show "validate_A rt req =
        Inr (Inr (normalizeLang rt ls, trim ts, getProp (safeParseJson rt req) (lit ''history'')))"
      by auto
  }
next
  assume b: "auth_B ev req = None \<and>
    toString_call (coalesce (getProp (case req_json req of None \<Rightarrow> JNull | Some v \<Rightarrow> v)
                               (lit ''lang'')) (JStr (lit ''es''))) = Inr ls \<and>
    toString_call (coalesce (getProp (case req_json req of None \<Rightarrow> JNull | Some v \<Rightarrow> v)
                               (lit ''text'')) (JStr [])) = Inr ts \<and>
    (if truthy (getProp (case req_json req of None \<Rightarrow> JNull | Some v \<Rightarrow> v)
                  (lit ''previous_response_id''))
     then map_sum id Some
            (toString_call (getProp (case req_json req of None \<Rightarrow> JNull | Some v \<Rightarrow> v)
                              (lit ''previous_response_id'')))
     else Inr None) = Inr prev"
  then have v: "validate_B req =
     (if trim ts = [] then
        Inr (Inl \<lparr>status = 400, headers = headers_B,
            body = JObj [(lit ''error'', JStr (lit ''Missing text''))]\<rparr>)
      else if 1500 < length (trim ts) then
        Inr (Inl \<lparr>status = 400, headers = headers_B,
            body = JObj [(lit ''error'', JStr (lit ''Text too long''))]\<rparr>)
      else Inr (Inr (ls, trim ts, prev)))"
    by (simp add: validate_B_text)
  {
    assume "1500 < length (trim ts)"
    with v have "validate_B req = Inr (Inl \<lparr>status = 400, headers = headers_B,
            body = JObj [(lit ''error'', JStr (lit ''Text too long''))]\<rparr>)"
      by auto
    with b show "POST_B rt ev req = (Inr \<lparr>status = 400, headers = headers_B,
            body = JObj [(lit ''error'', JStr (lit ''Text too long''))]\<rparr>, [])"
      by (simp add: POST_B_rejected)
  }
  {
    assume "1 \<le> length (trim ts) \<and> length (trim ts) \<le> 1500"
    with v show "validate_B req = Inr (Inr (ls, trim ts, prev))"
      by auto
  }
qed

theorem text_length_is_checked_witness:
  "POST_A (demo_runtime None) (demo_env None (Some (lit ''key'')))
      (demo_request None (JObj [(lit ''lang'', JStr (lit ''es'')),
                                (lit ''text'', JStr (replicate 1501 0x61))])) =
     (Inr \<lparr>status = 400, headers = headers_A,
            body = JObj [(lit ''error'', JStr (lit ''Text too long''))]\<rparr>, []) \<and>
   POST_B (demo_runtime None) (demo_env None (Some (lit ''key'')))
      (demo_request None (JObj [(lit ''lang'', JStr (lit ''es'')),
                                (lit ''text'', JStr (replicate 1501 0x61))])) =
     (Inr \<lparr>status = 400, headers = headers_B,
            body = JObj [(lit ''error'', JStr (lit ''Text too long''))]\<rparr>, []) \<and>
   validate_A (demo_runtime None)
      (demo_request None (JObj [(lit ''lang'', JStr (lit ''es'')),
                                (lit ''text'', JStr (replicate 1500 0x61))])) =
     Inr (Inr (lit ''es'', replicate 1500 0x61, JUndefined)) \<and>
   validate_B
      (demo_request None (JObj [(lit ''lang'', JStr (lit ''es'')),
                                (lit ''text'', JStr (replicate 1500 0x61))])) =
     Inr (Inr (lit ''es'', replicate 1500 0x61, None))"
  using
    text_length_is_checked
      [where rt = "demo_runtime None" and ev = "demo_env None (Some (lit ''key''))"
         and req = "demo_request None (JObj [(lit ''lang'', JStr (lit ''es'')),
                                (lit ''text'', JStr (replicate 1501 0x61))])"
         and ls = "lit ''es''" and ts = "replicate 1501 0x61" and prev = None]
    text_length_is_checked
      [where rt = "demo_runtime None" and ev = "demo_env None (Some (lit ''key''))"
         and req = "demo_request None (JObj [(lit ''lang'', JStr (lit ''es'')),
                                (lit ''text'', JStr (replicate 1500 0x61))])"
         and ls = "lit ''es''" and ts = "replicate 1500 0x61" and prev = None]
  by (simp add: auth_A_no_secret auth_B_no_secret safeParseJson_demo req_json_demo
      getProp_demo_text coalesce_def nullish_def toString_call_def trim_replicate_a
      normalizeLang_demo_es lit_eq_iff del: getProp.simps)

text \<open>
  Counterexample to the original wording: the text is 1501 letters \<open>a\<close>, and \<open>lang\<close> is
  an object that has a key \<open>toString\<close>. Reading \<open>lang\<close> comes first and raises, so the
  handler answers with the catch-all 500 and never looks at the length of the text.
\<close>

theorem text_length_is_checked_counterexample:
  "toString_call (JStr (replicate 1501 0x61)) = Inr (replicate 1501 0x61) \<and>
   length (trim (replicate 1501 0x61)) = 1501 \<and>
   POST_A (demo_runtime None) (demo_env None (Some (lit ''key'')))
      (demo_request None (JObj [(lit ''lang'', JObj [(lit ''toString'', JNum (lit ''1''))]),
                                (lit ''text'', JStr (replicate 1501 0x61))])) =
     (Inr \<lparr>status = 500, headers = headers_A,
            body = JObj [(lit ''error'', JStr (lit ''Server error'')),
                         (lit ''details'', JStr (lit ''failed''))]\<rparr>, [])"
proof -
  have "validate_A (demo_runtime None)
          (demo_request None (JObj [(lit ''lang'', JObj [(lit ''toString'', JNum (lit ''1''))]),
                                (lit ''text'', JStr (replicate 1501 0x61))])) = Inl TypeError"
    by (simp add: validate_A_def safeParseJson_demo getProp_demo_text coalesce_def nullish_def
        toString_call_def lit_eq_iff del: getProp.simps)
  then have "POST_A (demo_runtime None) (demo_env None (Some (lit ''key'')))
      (demo_request None (JObj [(lit ''lang'', JObj [(lit ''toString'', JNum (lit ''1''))]),
                                (lit ''text'', JStr (replicate 1501 0x61))])) =
     (Inr \<lparr>status = 500, headers = headers_A,
            body = JObj [(lit ''error'', JStr (lit ''Server error'')),
                         (lit ''details'', JStr (errorText (demo_runtime None) TypeError))]\<rparr>, [])"
    by (simp add: POST_A_raised auth_A_no_secret)
  then show ?thesis
    by (simp add: toString_call_def nullish_def trim_replicate_a errorText_demo)
qed

subsection \<open>A body that does not parse (C8)\<close>

text \<open>
  Claim C8. A body that does not parse as JSON is not an error of its own. In variant A
  \<open>req.json()\<close> fails and the fallback (\<open>req.text()\<close>, then \<open>JSON.parse\<close>) fails or finds
  nothing; in variant B \<open>req.json()\<close> fails. The body is then \<open>null\<close>, every field is
  absent, and once authorization has passed the answer is the one for the empty object:
  status 400 with the body \<open>{error: "Missing text"}\<close>, and no outbound call.
\<close>

theorem unparsable_body_is_treated_as_empty:
  "(auth_A ev req = None \<and> req_json req = None \<and>
    (\<forall>t. req_text req = Some t \<longrightarrow> t = [] \<or> JSON_parse rt t = None) \<longrightarrow>
      POST_A rt ev req = (Inr \<lparr>status = 400, headers = headers_A,
            body = JObj [(lit ''error'', JStr (lit ''Missing text''))]\<rparr>, []) \<and>
      POST_A rt ev (req\<lparr>req_json := Some (JObj [])\<rparr>) = (Inr \<lparr>status = 400, headers = headers_A,
            body = JObj [(lit ''error'', JStr (lit ''Missing text''))]\<rparr>, [])) \<and>
   (auth_B ev req = None \<and> req_json req = None \<longrightarrow>
      POST_B rt ev req = (Inr \<lparr>status = 400, headers = headers_B,
            body = JObj [(lit ''error'', JStr (lit ''Missing text''))]\<rparr>, []) \<and>
      POST_B rt ev (req\<lparr>req_json := Some (JObj [])\<rparr>) = (Inr \<lparr>status = 400, headers = headers_B,
            body = JObj [(lit ''error'', JStr (lit ''Missing text''))]\<rparr>, []))"
proof (intro conjI impI)
  assume a: "auth_A ev req = None \<and> req_json req = None \<and>
    (\<forall>t. req_text req = Some t \<longrightarrow> t = [] \<or> JSON_parse rt t = None)"
  then have "safeParseJson rt req = JNull"
    by (simp add: safeParseJson_fails)
  then have "validate_A rt req = Inr (Inl \<lparr>status = 400, headers = headers_A,
            body = JObj [(lit ''error'', JStr (lit ''Missing text''))]\<rparr>)"
    by (simp add: validate_A_null)
  with a show "POST_A rt ev req = (Inr \<lparr>status = 400, headers = headers_A,
            body = JObj [(lit ''error'', JStr (lit ''Missing text''))]\<rparr>, [])"
    by (simp add: POST_A_rejected)
  have "safeParseJson rt (req\<lparr>req_json := Some (JObj [])\<rparr>) = JObj []"
    by (simp add: safeParseJson_def)
  then have "validate_A rt (req\<lparr>req_json := Some (JObj [])\<rparr>) = Inr (Inl \<lparr>status = 400, headers = headers_A,
            body = JObj [(lit ''error'', JStr (lit ''Missing text''))]\<rparr>)"
    by (simp add: validate_A_null)
  moreover have "auth_A ev (req\<lparr>req_json := Some (JObj [])\<rparr>) = auth_A ev req"
    by (simp add: auth_A_def Let_def)
  ultimately show "POST_A rt ev (req\<lparr>req_json := Some (JObj [])\<rparr>) = (Inr \<lparr>status = 400, headers = headers_A,
            body = JObj [(lit ''error'', JStr (lit ''Missing text''))]\<rparr>, [])"
    using a by (simp add: POST_A_rejected)
next
  assume b: "auth_B ev req = None \<and> req_json req = None"
  then have "validate_B req = Inr (Inl \<lparr>status = 400, headers = headers_B,
            body = JObj [(lit ''error'', JStr (lit ''Missing text''))]\<rparr>)"
    by (simp add: validate_B_null)
  with b show "POST_B rt ev req = (Inr \<lparr>status = 400, headers = headers_B,
            body = JObj [(lit ''error'', JStr (lit ''Missing text''))]\<rparr>, [])"
    by (simp add: POST_B_rejected)
  have "validate_B (req\<lparr>req_json := Some (JObj [])\<rparr>) = Inr (Inl \<lparr>status = 400, headers = headers_B,
            body = JObj [(lit ''error'', JStr (lit ''Missing text''))]\<rparr>)"
    by (simp add: validate_B_null)
  moreover have "auth_B ev (req\<lparr>req_json := Some (JObj [])\<rparr>) = auth_B ev req"
    by (simp add: auth_B_def Let_def)
  ultimately show "POST_B rt ev (req\<lparr>req_json := Some (JObj [])\<rparr>) = (Inr \<lparr>status = 400, headers = headers_B,
            body = JObj [(lit ''error'', JStr (lit ''Missing text''))]\<rparr>, [])"
    using b by (simp add: POST_B_rejected)
qed

theorem unparsable_body_is_treated_as_empty_witness:
  "POST_A (demo_runtime None) (demo_env None (Some (lit ''key'')))
      \<lparr>x_app_token = None, req_json = None, req_text = Some (lit ''{text:'')\<rparr> =
     (Inr \<lparr>status = 400, headers = headers_A,
            body = JObj [(lit ''error'', JStr (lit ''Missing text''))]\<rparr>, []) \<and>
   POST_A (demo_runtime None) (demo_env None (Some (lit ''key'')))
      \<lparr>x_app_token = None, req_json = Some (JObj []), req_text = Some (lit ''{text:'')\<rparr> =
     (Inr \<lparr>status = 400, headers = headers_A,
            body = JObj [(lit ''error'', JStr (lit ''Missing text''))]\<rparr>, []) \<and>
   POST_B (demo_runtime None) (demo_env None (Some (lit ''key'')))
      \<lparr>x_app_token = None, req_json = None, req_text = Some (lit ''{text:'')\<rparr> =
     (Inr \<lparr>status = 400, headers = headers_B,
            body = JObj [(lit ''error'', JStr (lit ''Missing text''))]\<rparr>, []) \<and>
   POST_B (demo_runtime None) (demo_env None (Some (lit ''key'')))
      \<lparr>x_app_token = None, req_json = Some (JObj []), req_text = Some (lit ''{text:'')\<rparr> =
     (Inr \<lparr>status = 400, headers = headers_B,
            body = JObj [(lit ''error'', JStr (lit ''Missing text''))]\<rparr>, [])"
proof -
  have "JSON_parse (demo_runtime None) t = None" for t
    by (simp add: demo_runtime_def)
  then show ?thesis
    using unparsable_body_is_treated_as_empty
      [of "demo_env None (Some (lit ''key''))"
          "\<lparr>x_app_token = None, req_json = None, req_text = Some (lit ''{text:'')\<rparr>"
          "demo_runtime None"]
    by (simp add: auth_A_no_secret auth_B_no_secret)
qed

subsection \<open>The extractors (C9)\<close>

lemma partText_fragments:
  "\<forall>f\<in>set frags. f \<noteq> [] \<Longrightarrow>
   concat (map partText (map (\<lambda>f. JObj [(lit ''text'', JStr f)]) frags)) = frags"
  by (induction frags) simp_all

lemma contentText_fragments:
  "concat (map contentText
     (map (\<lambda>f. JObj [(lit ''type'', JStr (lit ''output_text'')),
                             (lit ''text'', JStr f)]) frags))
   = frags"
  by (induction frags) (simp_all add: lit_eq_iff)

text \<open>
  Claim C9. Given a provider body with one candidate (variant A) or one output item of
  type \<open>message\<close> (variant B) that carries the text fragments \<open>frags\<close>, each extractor
  returns the fragments joined by newlines, in order, and trimmed. Variant A leaves out
  empty fragments, so there the fragments are taken non-empty. The instance below is the
  specification's example: \<open>Hola\<close> and the question that follows it, whose characters
  U+00BF, U+00F3 and U+00E1 are written by their numbers.
\<close>

theorem extractors_join_the_fragments:
  "((\<forall>f\<in>set frags. f \<noteq> []) \<longrightarrow>
      extractTextFromGemini
        (JObj [(lit ''candidates'',
                JArr [JObj [(lit ''content'',
                             JObj [(lit ''parts'',
                                    JArr (map (\<lambda>f. JObj [(lit ''text'', JStr f)]) frags))])]])])
      = trim (join nl frags)) \<and>
   extractOutputText
     (JObj [(lit ''output'',
             JArr [JObj [(lit ''type'', JStr (lit ''message'')),
                         (lit ''content'',
                          JArr (map (\<lambda>f. JObj [(lit ''type'', JStr (lit ''output_text'')),
                                                (lit ''text'', JStr f)]) frags))]])])
     = Inr (trim (join nl frags))"
proof (intro conjI impI)
  assume "\<forall>f\<in>set frags. f \<noteq> []"
  then show "extractTextFromGemini
        (JObj [(lit ''candidates'',
                JArr [JObj [(lit ''content'',
                             JObj [(lit ''parts'',
                                    JArr (map (\<lambda>f. JObj [(lit ''text'', JStr f)]) frags))])]])])
      = trim (join nl frags)"
    by (simp add: extractTextFromGemini_def partText_fragments lit_eq_iff del: partText.simps map_map)
next
  show "extractOutputText
     (JObj [(lit ''output'',
             JArr [JObj [(lit ''type'', JStr (lit ''message'')),
                         (lit ''content'',
                          JArr (map (\<lambda>f. JObj [(lit ''type'', JStr (lit ''output_text'')),
                                                (lit ''text'', JStr f)]) frags))]])])
     = Inr (trim (join nl frags))"
    by (simp add: extractOutputText_def coalesce_def nullish_def contentText_fragments lit_eq_iff
        del: contentText.simps map_map)
qed

theorem extractors_join_the_fragments_witness:
  "extractTextFromGemini
     (JObj [(lit ''candidates'',
             JArr [JObj [(lit ''content'',
                          JObj [(lit ''parts'',
                                 JArr [JObj [(lit ''text'', JStr (lit ''Hola''))],
                                       JObj [(lit ''text'',
                                              JStr (lit ([CHR 0xBF] @ ''C'' @ [CHR 0xF3] @
                                                         ''mo est'' @ [CHR 0xE1] @ ''s?'')))]])])]])])
   = lit (''Hola'' @ [CHR 0x0A] @ [CHR 0xBF] @ ''C'' @ [CHR 0xF3] @ ''mo est'' @ [CHR 0xE1] @ ''s?'') \<and>
   extractOutputText
     (JObj [(lit ''output'',
             JArr [JObj [(lit ''type'', JStr (lit ''message'')),
                         (lit ''content'',
                          JArr [JObj [(lit ''type'', JStr (lit ''output_text'')),
                                      (lit ''text'', JStr (lit ''Hola''))],
                                JObj [(lit ''type'', JStr (lit ''output_text'')),
                                      (lit ''text'',
                                       JStr (lit ([CHR 0xBF] @ ''C'' @ [CHR 0xF3] @
                                                  ''mo est'' @ [CHR 0xE1] @ ''s?'')))]])]])])
   = Inr (lit (''Hola'' @ [CHR 0x0A] @ [CHR 0xBF] @ ''C'' @ [CHR 0xF3] @ ''mo est'' @ [CHR 0xE1] @
               ''s?''))"
proof -
  have ne: "\<forall>f\<in>set [lit ''Hola'',
                      lit ([CHR 0xBF] @ ''C'' @ [CHR 0xF3] @ ''mo est'' @ [CHR 0xE1] @ ''s?'')].
              f \<noteq> []"
    by (simp add: lit_eq_Nil_iff)
  show ?thesis
    using ne extractors_join_the_fragments
      [of "[lit ''Hola'',
            lit ([CHR 0xBF] @ ''C'' @ [CHR 0xF3] @ ''mo est'' @ [CHR 0xE1] @ ''s?'')]"]
    by (simp only: trim_hola_como_estas list.map simp_thms)
qed

subsection \<open>The headers (C10)\<close>

lemma auth_A_headers: "auth_A ev req = Some (Inr r) \<Longrightarrow> headers r = headers_A"
  by (auto simp add: auth_A_def Let_def split: if_splits dest: json_A_headers)

lemma validate_A_headers: "validate_A rt req = Inr (Inl r) \<Longrightarrow> headers r = headers_A"
  by (auto simp add: validate_A_def Let_def json_A_const split: if_splits sum.splits)

lemma reply_A_headers: "reply_A rt up = Inr r \<Longrightarrow> headers r = headers_A"
  by (auto simp add: reply_A_def Let_def split: if_splits sum.splits dest: json_A_headers)

lemma generate_A_headers:
  "fst (generate_A rt ev lang tx h) = Inr r \<Longrightarrow> headers r = headers_A"
  by (auto simp add: generate_A_def Let_def
      split: if_splits sum.splits option.splits dest: reply_A_headers json_A_headers)

lemma try_A_headers: "fst (try_A rt ev req) = Inr r \<Longrightarrow> headers r = headers_A"
  by (auto simp add: try_A_def validated_A_def
      split: option.splits sum.splits prod.splits
      dest: auth_A_headers validate_A_headers generate_A_headers)

lemma POST_A_headers: "\<exists>r. fst (POST_A rt ev req) = Inr r \<and> headers r = headers_A"
proof (cases "fst (try_A rt ev req)")
  case (Inl e)
  then show ?thesis
    by (simp add: POST_A_def catch_A_def json_A_const)
next
  case (Inr r)
  then show ?thesis
    using try_A_headers [of rt ev req r] by (simp add: POST_A_def catch_A_def)
qed

lemma auth_B_headers: "auth_B ev req = Some (Inr r) \<Longrightarrow> headers r = headers_B"
  by (auto simp add: auth_B_def Let_def split: if_splits dest: json_B_headers)

lemma validate_B_headers: "validate_B req = Inr (Inl r) \<Longrightarrow> headers r = headers_B"
  by (auto simp add: validate_B_def Let_def json_B_const split: if_splits sum.splits)

lemma reply_B_headers: "reply_B up = Inr r \<Longrightarrow> headers r = headers_B"
  by (auto simp add: reply_B_def Let_def split: if_splits sum.splits dest: json_B_headers)

lemma generate_B_headers:
  "fst (generate_B rt ev lang tx h) = Inr r \<Longrightarrow> headers r = headers_B"
  by (auto simp add: generate_B_def Let_def
      split: if_splits sum.splits option.splits dest: reply_B_headers json_B_headers)

lemma try_B_headers: "fst (try_B rt ev req) = Inr r \<Longrightarrow> headers r = headers_B"
  by (auto simp add: try_B_def validated_B_def
      split: option.splits sum.splits prod.splits
      dest: auth_B_headers validate_B_headers generate_B_headers)

lemma POST_B_headers: "\<exists>r. fst (POST_B rt ev req) = Inr r \<and> headers r = headers_B"
proof (cases "fst (try_B rt ev req)")
  case (Inl e)
  then show ?thesis
    by (simp add: POST_B_def catch_B_def json_B_const)
next
  case (Inr r)
  then show ?thesis
    using try_B_headers [of rt ev req r] by (simp add: POST_B_def catch_B_def)
qed

text \<open>
  Claim C10. Every response of either handler, the reply to \<open>OPTIONS\<close> and whatever
  \<open>POST\<close> returns (a success, an early return, a pass-through of the provider's status
  or the catch-all 500), carries the content type and the three CORS headers; variant A
  adds \<open>cache-control: no-store\<close> to every one of them. Neither \<open>OPTIONS\<close> nor \<open>POST\<close>
  ever raises, so there always is a response.
\<close>

theorem every_response_carries_the_headers:
  "(\<exists>r. OPTIONS_A = Inr r \<and> status r = 200 \<and> body r = JObj [(lit ''ok'', JBool True)] \<and>
      headers r =
       [(lit ''content-type'', lit ''application/json; charset=utf-8''),
        (lit ''access-control-allow-origin'', lit ''*''),
        (lit ''access-control-allow-headers'', lit ''content-type, x-app-token''),
        (lit ''access-control-allow-methods'', lit ''POST, OPTIONS''),
        (lit ''cache-control'', lit ''no-store'')]) \<and>
   (\<exists>r. fst (POST_A rt ev req) = Inr r \<and>
      headers r =
       [(lit ''content-type'', lit ''application/json; charset=utf-8''),
        (lit ''access-control-allow-origin'', lit ''*''),
        (lit ''access-control-allow-headers'', lit ''content-type, x-app-token''),
        (lit ''access-control-allow-methods'', lit ''POST, OPTIONS''),
        (lit ''cache-control'', lit ''no-store'')]) \<and>
   (\<exists>r. OPTIONS_B = Inr r \<and> status r = 200 \<and> body r = JObj [(lit ''ok'', JBool True)] \<and>
      headers r =
       [(lit ''content-type'', lit ''application/json; charset=utf-8''),
        (lit ''access-control-allow-origin'', lit ''*''),
        (lit ''access-control-allow-headers'', lit ''content-type, x-app-token''),
        (lit ''access-control-allow-methods'', lit ''POST, OPTIONS'')]) \<and>
   (\<exists>r. fst (POST_B rt ev req) = Inr r \<and>
      headers r =
       [(lit ''content-type'', lit ''application/json; charset=utf-8''),
        (lit ''access-control-allow-origin'', lit ''*''),
        (lit ''access-control-allow-headers'', lit ''content-type, x-app-token''),
        (lit ''access-control-allow-methods'', lit ''POST, OPTIONS'')])"
  using POST_A_headers [of rt ev req] POST_B_headers [of rt ev req]
  by (simp add: OPTIONS_A_def OPTIONS_B_def json_A_const json_B_const headers_A_def headers_B_def)

end
